theory Spec2Isabelle
  imports Complex_Main
begin

section \<open>JavaScript values and errors\<close>

text \<open>
  Values that cross the boundary to the collaborators (vector-index metadata, parsed model
  output) are JSON values. A property that is absent reads as \<open>undefined\<close>, which is
  \<open>None\<close> of \<open>json option\<close>. An object is an association list with distinct keys, as
  \<open>JSON.parse\<close> and the index client produce it.
\<close>

datatype json =
    JNull
  | JBool bool
  | JNum real
  | JStr string
  | JArr "json list"
  | JObj "(string \<times> json) list"

text \<open>A JavaScript \<open>number\<close> that results from a coercion: finite, infinite or \<open>NaN\<close>.\<close>

datatype number = Fin real | PosInf | NegInf | NaN

text \<open>
  Everything the code can throw or receive as a rejected promise. \<open>Error msg\<close> is
  \<open>new Error(msg)\<close>; \<open>RecordNotFound\<close> is the relational client's error for an
  \<open>update\<close> whose \<open>where\<close> matches no row; \<open>Upstream\<close> is a transport or service
  failure of a collaborator.
\<close>

datatype error =
    Error string
  | TypeError
  | SyntaxError
  | Upstream string
  | RecordNotFound
  | ValidationError
  | ENOENT
  | DimensionMismatch

subsection \<open>The language's built-in coercions\<close>

definition typeof :: "json option \<Rightarrow> string" where
  "typeof v = (case v of
      None \<Rightarrow> ''undefined''
    | Some JNull \<Rightarrow> ''object''
    | Some (JBool _) \<Rightarrow> ''boolean''
    | Some (JNum _) \<Rightarrow> ''number''
    | Some (JStr _) \<Rightarrow> ''string''
    | Some (JArr _) \<Rightarrow> ''object''
    | Some (JObj _) \<Rightarrow> ''object'')"

text \<open>\<open>v ?? d\<close>: the default replaces \<open>undefined\<close> and \<open>null\<close> only.\<close>

definition nullish :: "json option \<Rightarrow> json \<Rightarrow> json" where
  "nullish v d = (case v of None \<Rightarrow> d | Some JNull \<Rightarrow> d | Some x \<Rightarrow> x)"

text \<open>Truthiness, as \<open>||\<close>, \<open>&&\<close> and \<open>if\<close> test it.\<close>

definition truthy :: "json option \<Rightarrow> bool" where
  "truthy v = (case v of
      None \<Rightarrow> False
    | Some JNull \<Rightarrow> False
    | Some (JBool b) \<Rightarrow> b
    | Some (JNum n) \<Rightarrow> n \<noteq> 0
    | Some (JStr s) \<Rightarrow> s \<noteq> []
    | Some (JArr _) \<Rightarrow> True
    | Some (JObj _) \<Rightarrow> True)"

fun join_with :: "string \<Rightarrow> string list \<Rightarrow> string" where
  "join_with sep [] = []"
| "join_with sep [x] = x"
| "join_with sep (x # y # ys) = x @ sep @ join_with sep (y # ys)"

text \<open>
  The collaborators and the parts of the language runtime that the code calls and that are
  not part of the repository's sources. \<open>StringToNumber\<close> and \<open>NumberToString\<close> are
  the ECMAScript conversions behind \<open>Number(s)\<close> and \<open>String(n)\<close>; \<open>JSON_parse\<close> is
  \<open>JSON.parse\<close>; \<open>generateEmbedding\<close> and \<open>generateChatCompletion\<close> are the model
  calls of \<open>./openai\<close>; \<open>processAndStorePDF\<close> is the extract, chunk, embed and upsert
  step of \<open>./pdf-processor\<close>; \<open>policyFactAccepted\<close> is the relational schema's
  validation of a PolicyFact row; \<open>newId\<close> is the relational store's row-id generator.
\<close>

record ChatMessage =
  role :: string
  msg_content :: string

record GenOptions =
  temperature :: real
  numPredict :: nat

record ProcessedChunk =
  pc_content :: string
  pc_pageNumber :: nat
  pc_chunkIndex :: nat

record PolicyFactData =
  pf_policyId :: string
  pf_stateId :: string
  pf_category :: "json option"
  pf_field :: "json option"
  pf_value :: "json option"
  pf_confidence :: json
  pf_pageNumber :: "json option"

record env =
  StringToNumber :: "string \<Rightarrow> number"
  NumberToString :: "number \<Rightarrow> string"
  JSON_parse :: "string \<Rightarrow> error + json"
  generateEmbedding :: "string \<Rightarrow> error + real list"
  generateChatCompletion :: "ChatMessage list \<Rightarrow> GenOptions \<Rightarrow> error + string"
  processAndStorePDF ::
    "string \<Rightarrow> string \<Rightarrow> string \<Rightarrow> string \<Rightarrow> string \<Rightarrow> error + ProcessedChunk list"
  policyFactAccepted :: "PolicyFactData \<Rightarrow> bool"
  newId :: "nat \<Rightarrow> string"

text \<open>\<open>String(v)\<close> for a value that is not \<open>undefined\<close>.\<close>

fun js_String :: "env \<Rightarrow> json \<Rightarrow> string" where
  "js_String env JNull = ''null''"
| "js_String env (JBool b) = (if b then ''true'' else ''false'')"
| "js_String env (JNum n) = NumberToString env (Fin n)"
| "js_String env (JStr s) = s"
| "js_String env (JArr xs) =
     join_with '','' (map (\<lambda>x. if x = JNull then [] else js_String env x) xs)"
| "js_String env (JObj kvs) = ''[object Object]''"

text \<open>\<open>Number(v)\<close> for a value that is not \<open>undefined\<close>.\<close>

definition js_Number :: "env \<Rightarrow> json \<Rightarrow> number" where
  "js_Number env v = (case v of
      JNull \<Rightarrow> Fin 0
    | JBool b \<Rightarrow> (if b then Fin 1 else Fin 0)
    | JNum n \<Rightarrow> Fin n
    | JStr s \<Rightarrow> StringToNumber env s
    | JArr xs \<Rightarrow> StringToNumber env (js_String env (JArr xs))
    | JObj kvs \<Rightarrow> NaN)"

text \<open>\<open>xs.slice(0, e)\<close>: a negative end counts from the end of the array.\<close>

definition js_slice0 :: "'a list \<Rightarrow> int \<Rightarrow> 'a list" where
  "js_slice0 xs e =
     (let len = int (length xs);
          final = (if e < 0 then max (len + e) 0 else min e len)
      in take (nat final) xs)"

text \<open>\<open>xs.slice(-n)\<close> for a positive \<open>n\<close>: the last \<open>n\<close> elements.\<close>

definition js_slice_last :: "'a list \<Rightarrow> nat \<Rightarrow> 'a list" where
  "js_slice_last xs n = drop (length xs - n) xs"

section \<open>The vector index and the state of the world\<close>

datatype metadata_filter =
    FieldIn string "string list"
  | FieldEq string string

record QueryRequest =
  q_vector :: "real list"
  q_topK :: int
  q_includeMetadata :: bool
  q_filter :: "metadata_filter option"

record ScoredMatch =
  m_id :: string
  m_score :: "real option"
  m_metadata :: "(string \<times> json) list option"

record QueryResponse =
  matches :: "ScoredMatch list option"

record VectorEntry =
  v_id :: string
  v_values :: "real list"
  v_metadata :: "(string \<times> json) list"

text \<open>
  The index handle of the vector-index client (\<open>pineconeIndex\<close>), over the state \<open>'ix\<close>
  of the index service.
\<close>

record 'ix pinecone =
  px_query :: "'ix \<Rightarrow> QueryRequest \<Rightarrow> error + QueryResponse"
  px_upsert :: "'ix \<Rightarrow> VectorEntry list \<Rightarrow> error + 'ix"
  px_deleteMany :: "'ix \<Rightarrow> string list \<Rightarrow> error + 'ix"

datatype event =
    EmbeddingCall string
  | IndexQuery QueryRequest
  | IndexUpsert "VectorEntry list"
  | IndexDeleteMany "string list"
  | ChatCompletionCall "ChatMessage list" GenOptions
  | Unlink string
  | ConsoleWarn string
  | ConsoleError string

datatype status = Pending | Processing | Completed | Failed

record Policy =
  p_stateId :: string
  p_stateName :: string
  p_title :: string
  p_status :: status
  p_processedAt :: "nat option"

record PolicyChunk =
  c_id :: string
  c_policyId :: string
  c_content :: string
  c_pageNumber :: nat
  c_chunkIndex :: nat

text \<open>
  The world outside the process: the relational store's tables, the file system, the
  vector index, the clock, and the trace of collaborator calls and of \<open>console.warn\<close> and
  \<open>console.error\<close> lines in the order they happen (\<open>console.log\<close> lines are left out).
  A computation takes the world and returns its completion, a value or a thrown error,
  with the world it leaves behind: effects made before a throw stay.
\<close>

record 'ix world =
  policies :: "string \<rightharpoonup> Policy"
  policyChunks :: "PolicyChunk list"
  policyFacts :: "PolicyFactData list"
  files :: "string \<rightharpoonup> string"
  index :: 'ix
  now :: nat
  trace :: "event list"

type_synonym ('a, 'ix) io = "'ix world \<Rightarrow> (error + 'a) \<times> 'ix world"

definition ret :: "'a \<Rightarrow> ('a, 'ix) io" where
  "ret x = (\<lambda>w. (Inr x, w))"

definition throw :: "error \<Rightarrow> ('a, 'ix) io" where
  "throw e = (\<lambda>w. (Inl e, w))"

definition andThen :: "('a, 'ix) io \<Rightarrow> ('a \<Rightarrow> ('b, 'ix) io) \<Rightarrow> ('b, 'ix) io" where
  "andThen m f = (\<lambda>w. case m w of (Inl e, w') \<Rightarrow> (Inl e, w') | (Inr x, w') \<Rightarrow> f x w')"

definition tryCatch :: "('a, 'ix) io \<Rightarrow> (error \<Rightarrow> ('a, 'ix) io) \<Rightarrow> ('a, 'ix) io" where
  "tryCatch body handler =
     (\<lambda>w. case body w of (Inl e, w') \<Rightarrow> handler e w' | (Inr x, w') \<Rightarrow> (Inr x, w'))"

text \<open>
  \<open>try { body } finally { fin }\<close>: the finaliser runs after either completion of the body;
  the body's completion stands unless the finaliser itself throws.
\<close>

definition tryFinally :: "('a, 'ix) io \<Rightarrow> (unit, 'ix) io \<Rightarrow> ('a, 'ix) io" where
  "tryFinally body fin =
     (\<lambda>w. case body w of (r, w') \<Rightarrow>
        (case fin w' of (Inl e, w'') \<Rightarrow> (Inl e, w'') | (Inr _, w'') \<Rightarrow> (r, w'')))"

definition emit :: "event \<Rightarrow> (unit, 'ix) io" where
  "emit ev = (\<lambda>w. (Inr (), w\<lparr>trace := trace w @ [ev]\<rparr>))"

definition pure_call :: "event \<Rightarrow> (error + 'a) \<Rightarrow> ('a, 'ix) io" where
  "pure_call ev r = (\<lambda>w. (r, w\<lparr>trace := trace w @ [ev]\<rparr>))"

section \<open>The vector index gateway (src/lib/pinecone.ts)\<close>

definition VECTOR_DIMENSIONS :: nat where
  "VECTOR_DIMENSIONS = 768"

definition pineconeIndex_query :: "'ix pinecone \<Rightarrow> QueryRequest \<Rightarrow> (QueryResponse, 'ix) io" where
  "pineconeIndex_query pc req =
     (\<lambda>w. (px_query pc (index w) req, w\<lparr>trace := trace w @ [IndexQuery req]\<rparr>))"

definition pineconeIndex_upsert :: "'ix pinecone \<Rightarrow> VectorEntry list \<Rightarrow> (unit, 'ix) io" where
  "pineconeIndex_upsert pc vectors =
     (\<lambda>w. case px_upsert pc (index w) vectors of
         Inl e \<Rightarrow> (Inl e, w\<lparr>trace := trace w @ [IndexUpsert vectors]\<rparr>)
       | Inr ix' \<Rightarrow> (Inr (), w\<lparr>index := ix', trace := trace w @ [IndexUpsert vectors]\<rparr>))"

definition pineconeIndex_deleteMany :: "'ix pinecone \<Rightarrow> string list \<Rightarrow> (unit, 'ix) io" where
  "pineconeIndex_deleteMany pc ids =
     (\<lambda>w. case px_deleteMany pc (index w) ids of
         Inl e \<Rightarrow> (Inl e, w\<lparr>trace := trace w @ [IndexDeleteMany ids]\<rparr>)
       | Inr ix' \<Rightarrow> (Inr (), w\<lparr>index := ix', trace := trace w @ [IndexDeleteMany ids]\<rparr>))"

definition upsertVectors :: "'ix pinecone \<Rightarrow> VectorEntry list \<Rightarrow> (nat, 'ix) io" where
  "upsertVectors pc vectors =
     tryCatch
       (andThen (pineconeIndex_upsert pc vectors) (\<lambda>_.
        ret (length vectors)))
       (\<lambda>err. andThen (emit (ConsoleError ''Error upserting vectors to Pinecone:'')) (\<lambda>_.
        throw err))"

definition queryVectors ::
  "'ix pinecone \<Rightarrow> real list \<Rightarrow> int \<Rightarrow> metadata_filter option \<Rightarrow> (ScoredMatch list, 'ix) io"
where
  "queryVectors pc queryVector topK flt =
     tryCatch
       (andThen
          (pineconeIndex_query pc
             \<lparr>q_vector = queryVector, q_topK = topK, q_includeMetadata = True, q_filter = flt\<rparr>)
          (\<lambda>result.
        ret (case matches result of None \<Rightarrow> [] | Some ms \<Rightarrow> ms)))
       (\<lambda>err. andThen (emit (ConsoleError ''Error querying vectors from Pinecone:'')) (\<lambda>_.
        throw err))"

definition deleteVectors :: "'ix pinecone \<Rightarrow> string list \<Rightarrow> (nat, 'ix) io" where
  "deleteVectors pc vectorIds =
     tryCatch
       (andThen (pineconeIndex_deleteMany pc vectorIds) (\<lambda>_.
        ret (length vectorIds)))
       (\<lambda>err. andThen (emit (ConsoleError ''Error deleting vectors from Pinecone:'')) (\<lambda>_.
        throw err))"

definition dummyVector :: "real list" where
  "dummyVector = replicate 768 0"

definition deletePolicyVectors :: "'ix pinecone \<Rightarrow> string \<Rightarrow> (nat, 'ix) io" where
  "deletePolicyVectors pc policyId =
     tryCatch
       (andThen
          (pineconeIndex_query pc
             \<lparr>q_vector = dummyVector, q_topK = 10000, q_includeMetadata = False,
              q_filter = Some (FieldEq ''policyId'' policyId)\<rparr>)
          (\<lambda>queryResult.
        andThen
          (case matches queryResult of
             Some ms \<Rightarrow>
               (if length ms > 0 then pineconeIndex_deleteMany pc (map m_id ms) else ret ())
           | None \<Rightarrow> ret ())
          (\<lambda>_.
        ret (case matches queryResult of Some ms \<Rightarrow> length ms | None \<Rightarrow> 0))))
       (\<lambda>err. andThen (emit (ConsoleError ''Error deleting policy vectors from Pinecone:'')) (\<lambda>_.
        throw err))"

section \<open>Hybrid retrieval (src/lib/rag.ts)\<close>

record SearchResult =
  chunkId :: string
  content :: string
  pageNumber :: number
  similarity :: real
  policyId :: string
  stateName :: string
  policyTitle :: string

definition SIMILARITY_THRESHOLD :: real where
  "SIMILARITY_THRESHOLD = 7 / 10"

definition TOP_K_RESULTS :: int where
  "TOP_K_RESULTS = 5"

text \<open>The predicate of the \<open>.filter\<close> call.\<close>

definition clears_threshold :: "ScoredMatch \<Rightarrow> bool" where
  "clears_threshold match =
     (case m_score match of None \<Rightarrow> False | Some s \<Rightarrow> s \<ge> SIMILARITY_THRESHOLD)"

text \<open>The function of the \<open>.map\<close> call.\<close>

text \<open>\<open>match.metadata ?? {}\<close>.\<close>

definition metadataOf :: "ScoredMatch \<Rightarrow> (string \<times> json) list" where
  "metadataOf match = (case m_metadata match of None \<Rightarrow> [] | Some md \<Rightarrow> md)"

definition toSearchResult :: "env \<Rightarrow> ScoredMatch \<Rightarrow> SearchResult" where
  "toSearchResult env match =
    (let metadata = metadataOf match in
     \<lparr>chunkId = m_id match,
      content =
        (case map_of metadata ''content'' of
           Some (JStr s) \<Rightarrow> s
         | v \<Rightarrow> js_String env (nullish v (JStr ''''))),
      pageNumber =
        (case map_of metadata ''pageNumber'' of
           Some (JNum n) \<Rightarrow> Fin n
         | v \<Rightarrow> js_Number env (nullish v (JNum 1))),
      similarity = (case m_score match of None \<Rightarrow> 0 | Some s \<Rightarrow> s),
      policyId =
        (case map_of metadata ''policyId'' of
           Some (JStr s) \<Rightarrow> s
         | v \<Rightarrow> js_String env (nullish v (JStr ''''))),
      stateName =
        (case map_of metadata ''stateName'' of Some (JStr s) \<Rightarrow> s | _ \<Rightarrow> ''Unknown''),
      policyTitle =
        (case map_of metadata ''policyTitle'' of Some (JStr s) \<Rightarrow> s | _ \<Rightarrow> ''Unknown Policy'')\<rparr>)"

definition generateEmbedding_call :: "env \<Rightarrow> string \<Rightarrow> (real list, 'ix) io" where
  "generateEmbedding_call env text = pure_call (EmbeddingCall text) (generateEmbedding env text)"

definition generateChatCompletion_call ::
  "env \<Rightarrow> ChatMessage list \<Rightarrow> GenOptions \<Rightarrow> (string, 'ix) io"
where
  "generateChatCompletion_call env messages opts =
     pure_call (ChatCompletionCall messages opts) (generateChatCompletion env messages opts)"

text \<open>
  \<open>.sort((a, b) => b.similarity - a.similarity)\<close> is a stable sort by descending
  similarity; \<open>sort_key\<close> is a stable insertion sort.
\<close>

definition hybridSearch ::
  "'ix pinecone \<Rightarrow> env \<Rightarrow> string \<Rightarrow> string list option \<Rightarrow> int \<Rightarrow> (SearchResult list, 'ix) io"
where
  "hybridSearch pc env query stateFilter topK =
     tryCatch
       (andThen (generateEmbedding_call env query) (\<lambda>queryEmbedding.
        let flt = (case stateFilter of
                     Some names \<Rightarrow> Some (FieldIn ''stateName'' names)
                   | None \<Rightarrow> None) in
        andThen (queryVectors pc queryEmbedding (topK * 2) flt) (\<lambda>pineconeResults.
        ret (js_slice0
               (sort_key (\<lambda>r. - similarity r)
                  (map (toSearchResult env) (filter clears_threshold pineconeResults)))
               topK))))
       (\<lambda>err. andThen (emit (ConsoleError ''Error in hybrid search:'')) (\<lambda>_.
        throw (Error ''Search failed'')))"


record Citation =
  cit_content :: string
  cit_pageNumber :: number
  cit_stateName :: string
  cit_policyTitle :: string

record RAGResponse =
  answer :: string
  confidence :: real
  citations :: "Citation list"
  suggestedQueries :: "string list option"

definition ragSystemPrompt :: string where
  "ragSystemPrompt =
     ''You are a telehealth policy expert assistant. Answer questions based ONLY on the provided context from state telehealth policy documents.\<newline>\<newline>'' @
     ''Rules:\<newline>'' @
     ''1. Only use information from the provided context\<newline>'' @
     ''2. Always cite sources using [number] notation\<newline>'' @
     ''3. If the context doesn't contain enough information, say so clearly\<newline>'' @
     ''4. Be concise and specific\<newline>'' @
     ''5. For regulatory questions, quote exact requirements when possible\<newline>'' @
     ''6. If confidence is low, suggest alternative queries''"

definition noInformationAnswer :: string where
  "noInformationAnswer =
     ''I couldn't find relevant information to answer your question. Try rephrasing or asking about specific telehealth modalities, billing codes, or state requirements.''"

definition prisma_policyChunk_findMany :: "string list \<Rightarrow> (PolicyChunk list, 'ix) io" where
  "prisma_policyChunk_findMany ids =
     (\<lambda>w. (Inr (filter (\<lambda>c. c_id c \<in> set ids) (policyChunks w)), w))"

text \<open>\<open>fullChunk?.content || result.content\<close>, with \<open>fullChunk\<close> found by id.\<close>

definition hydratedContent :: "PolicyChunk list \<Rightarrow> SearchResult \<Rightarrow> string" where
  "hydratedContent fullChunks result =
     (case find (\<lambda>c. c_id c = chunkId result) fullChunks of
        Some fullChunk \<Rightarrow> (if c_content fullChunk \<noteq> [] then c_content fullChunk else content result)
      | None \<Rightarrow> content result)"

definition contextEntry :: "env \<Rightarrow> PolicyChunk list \<Rightarrow> SearchResult \<times> nat \<Rightarrow> string" where
  "contextEntry env fullChunks ri =
     (case ri of (result, idx) \<Rightarrow>
        ''['' @ NumberToString env (Fin (real (idx + 1))) @ ''] From '' @ stateName result @
        '' (Page '' @ NumberToString env (pageNumber result) @ ''):\<newline>'' @
        hydratedContent fullChunks result)"

definition toCitation :: "PolicyChunk list \<Rightarrow> SearchResult \<Rightarrow> Citation" where
  "toCitation fullChunks result =
     \<lparr>cit_content = hydratedContent fullChunks result,
      cit_pageNumber = pageNumber result,
      cit_stateName = stateName result,
      cit_policyTitle = policyTitle result\<rparr>"

definition ragQuery ::
  "'ix pinecone \<Rightarrow> env \<Rightarrow> string \<Rightarrow> string list option \<Rightarrow> ChatMessage list \<Rightarrow> (RAGResponse, 'ix) io"
where
  "ragQuery pc env query stateFilter history =
     tryCatch
       (andThen (hybridSearch pc env query stateFilter TOP_K_RESULTS) (\<lambda>searchResults.
        if length searchResults = 0 then
          ret \<lparr>answer = noInformationAnswer,
               confidence = 0,
               citations = [],
               suggestedQueries = Some
                 [''What are the live video requirements?'',
                  ''Does this state allow store-and-forward?'',
                  ''What are the consent requirements?'']\<rparr>
        else
        let chunkIds = map chunkId searchResults in
        andThen (prisma_policyChunk_findMany chunkIds) (\<lambda>fullChunks.
        let context = join_with ''\<newline>\<newline>''
              (map (contextEntry env fullChunks) (zip searchResults [0 ..< length searchResults]));
            systemPrompt = ragSystemPrompt;
            userPrompt = ''Context from policy documents:\<newline>'' @ context @
              ''\<newline>\<newline>Question: '' @ query @
              ''\<newline>\<newline>Provide a clear, cited answer. Use [1], [2], etc. to reference the context sources.'';
            trimmedHistory = map (\<lambda>message. \<lparr>role = role message, msg_content = msg_content message\<rparr>)
              (js_slice_last history 10) in
        andThen
          (generateChatCompletion_call env
             ([\<lparr>role = ''system'', msg_content = systemPrompt\<rparr>] @ trimmedHistory @
              [\<lparr>role = ''user'', msg_content = userPrompt\<rparr>])
             \<lparr>temperature = 3 / 10, numPredict = 512\<rparr>)
          (\<lambda>answer.
        let avgSimilarity =
              foldl (\<lambda>sum r. sum + similarity r) 0 searchResults / real (length searchResults);
            confidence = min (avgSimilarity * (12 / 10)) 1 in
        ret \<lparr>answer = answer,
             confidence = confidence,
             citations = map (toCitation fullChunks) searchResults,
             suggestedQueries = None\<rparr>))))
       (\<lambda>err. andThen (emit (ConsoleError ''Error in RAG query:'')) (\<lambda>_.
        throw (Error ''Failed to generate answer'')))"

subsection \<open>Fact extraction\<close>

definition extractionSystemPrompt :: string where
  \<open>extractionSystemPrompt =
     ''You are a telehealth policy extraction expert. Extract structured facts from state telehealth policy documents.\<newline>\<newline>'' @
     ''Extract the following categories:\<newline>'' @
     ''1. Modalities: live_video, store_and_forward, rpm, audio_only\<newline>'' @
     ''2. Consent: requirements and specifics\<newline>'' @
     ''3. In-person requirements: initial visit rules\<newline>'' @
     ''4. Provider eligibility: who can provide telehealth\<newline>'' @
     ''5. Site eligibility: originating/distant site rules\<newline>'' @
     ''6. Billing: facility fees, modifiers (GT, FQ, 95), reimbursement parity\<newline>'' @
     ''7. Documentation: special requirements (e.g., BMI recording)\<newline>'' @
     ''8. Prescribing: controlled substances, restrictions\<newline>\<newline>'' @
     ''Return JSON format:\<newline>'' @
     ''{\<newline>'' @
     ''  "facts": [\<newline>'' @
     ''    {\<newline>'' @
     ''      "category": "modality",\<newline>'' @
     ''      "field": "live_video",\<newline>'' @
     ''      "value": "Allowed with no restrictions",\<newline>'' @
     ''      "confidence": 0.95,\<newline>'' @
     ''      "page": 3\<newline>'' @
     ''    }\<newline>'' @
     ''  ]\<newline>'' @
     ''}''\<close>

text \<open>
  \<open>extractionRaw.match(/\{[\s\S]*\}/)\<close>: the match starts at the first \<open>{\<close> and, the
  star being greedy over every character, ends at the last \<open>}\<close> after it; there is no
  match when either is missing.
\<close>

definition json_span :: "string \<Rightarrow> string option" where
  "json_span raw =
     (let fromBrace = dropWhile (\<lambda>c. c \<noteq> CHR ''{'') raw;
          matched = rev (dropWhile (\<lambda>c. c \<noteq> CHR ''}'') (rev fromBrace))
      in if matched = [] then None else Some matched)"

text \<open>
  Reading property \<open>k\<close> of a value: a \<open>TypeError\<close> on \<open>null\<close>, the stored value on an
  object, \<open>undefined\<close> otherwise (none of the keys read here is a built-in property of a
  string, a number, a boolean or an array).
\<close>

definition get_prop :: "json \<Rightarrow> string \<Rightarrow> error + json option" where
  "get_prop v k = (case v of
      JNull \<Rightarrow> Inl TypeError
    | JObj kvs \<Rightarrow> Inr (map_of kvs k)
    | _ \<Rightarrow> Inr None)"

definition lift :: "error + 'a \<Rightarrow> ('a, 'ix) io" where
  "lift r = (\<lambda>w. (r, w))"

definition prisma_policy_findUnique :: "string \<Rightarrow> (Policy option, 'ix) io" where
  "prisma_policy_findUnique pid = (\<lambda>w. (Inr (policies w pid), w))"

definition policy_chunks :: "string \<Rightarrow> (PolicyChunk list, 'ix) io" where
  "policy_chunks pid = (\<lambda>w. (Inr (filter (\<lambda>c. c_policyId c = pid) (policyChunks w)), w))"

definition prisma_policyFact_create :: "env \<Rightarrow> PolicyFactData \<Rightarrow> (unit, 'ix) io" where
  "prisma_policyFact_create env data =
     (\<lambda>w. if policyFactAccepted env data
          then (Inr (), w\<lparr>policyFacts := policyFacts w @ [data]\<rparr>)
          else (Inl ValidationError, w))"

text \<open>\<open>fact.confidence || 0.5\<close>.\<close>

definition confidenceOrDefault :: "json option \<Rightarrow> json" where
  "confidenceOrDefault c = (if truthy c then the c else JNum (1 / 2))"

text \<open>The \<open>data\<close> object of one \<open>policyFact.create\<close> call.\<close>

definition bindE :: "error + 'a \<Rightarrow> ('a \<Rightarrow> error + 'b) \<Rightarrow> error + 'b" where
  "bindE r f = (case r of Inl e \<Rightarrow> Inl e | Inr x \<Rightarrow> f x)"

definition factData :: "string \<Rightarrow> string \<Rightarrow> json \<Rightarrow> error + PolicyFactData" where
  "factData pid sid fact_obj =
     bindE (get_prop fact_obj ''category'') (\<lambda>category.
     bindE (get_prop fact_obj ''field'') (\<lambda>field.
     bindE (get_prop fact_obj ''value'') (\<lambda>val.
     bindE (get_prop fact_obj ''confidence'') (\<lambda>conf.
     bindE (get_prop fact_obj ''page'') (\<lambda>page.
     Inr \<lparr>pf_policyId = pid,
          pf_stateId = sid,
          pf_category = category,
          pf_field = field,
          pf_value = val,
          pf_confidence = confidenceOrDefault conf,
          pf_pageNumber = page\<rparr>)))))"

text \<open>The \<open>for (const fact of result.facts)\<close> loop.\<close>

fun storeFacts :: "env \<Rightarrow> string \<Rightarrow> string \<Rightarrow> json list \<Rightarrow> (unit, 'ix) io" where
  "storeFacts env pid sid [] w = (Inr (), w)"
| "storeFacts env pid sid (fact_obj # rest) w =
     (case andThen (lift (factData pid sid fact_obj)) (prisma_policyFact_create env) w of
        (Inl e, w') \<Rightarrow> (Inl e, w')
      | (Inr _, w') \<Rightarrow> storeFacts env pid sid rest w')"

definition extractPolicyFacts :: "env \<Rightarrow> string \<Rightarrow> (unit, 'ix) io" where
  "extractPolicyFacts env pid =
     tryCatch
       (andThen (prisma_policy_findUnique pid) (\<lambda>found.
        case found of
          None \<Rightarrow> throw (Error ''Policy not found'')
        | Some policy \<Rightarrow>
        andThen (policy_chunks pid) (\<lambda>chunks.
        let fullText = join_with ''\<newline>'' (map c_content chunks);
            systemPrompt = extractionSystemPrompt in
        andThen
          (generateChatCompletion_call env
             [\<lparr>role = ''system'', msg_content = systemPrompt\<rparr>,
              \<lparr>role = ''user'', msg_content =
                 ''Extract facts from this '' @ p_stateName policy @ '' policy:\<newline>\<newline>'' @
                 take 12000 fullText\<rparr>]
             \<lparr>temperature = 1 / 10, numPredict = 1024\<rparr>)
          (\<lambda>extractionRaw.
        andThen
          (tryCatch
             (case json_span extractionRaw of
                Some jsonMatch \<Rightarrow> lift (JSON_parse env jsonMatch)
              | None \<Rightarrow> ret (JObj []))
             (\<lambda>err. andThen (emit (ConsoleWarn ''Failed to parse extracted facts JSON'')) (\<lambda>_.
              ret (JObj []))))
          (\<lambda>result.
        andThen (lift (get_prop result ''facts'')) (\<lambda>facts.
        case facts of
          Some (JArr fs) \<Rightarrow> storeFacts env pid (p_stateId policy) fs
        | _ \<Rightarrow> ret ()))))))
       (\<lambda>err. andThen (emit (ConsoleError ''Error extracting policy facts:'')) (\<lambda>_.
        throw (Error ''Failed to extract policy facts'')))"


section \<open>The ingestion queue (src/unnamed/part_002)\<close>

record IngestionJob =
  job_policyId :: string
  job_buffer :: "string option"
  job_filePath :: "string option"
  job_deleteFileAfter :: "bool option"

text \<open>The module-level \<open>jobQueue\<close> and \<open>isProcessing\<close>.\<close>

record QueueState =
  jobQueue :: "IngestionJob list"
  isProcessing :: bool

text \<open>Truthiness of an optional string: \<open>undefined\<close> and the empty string are falsy.\<close>

definition truthy_str :: "string option \<Rightarrow> bool" where
  "truthy_str s = (case s of None \<Rightarrow> False | Some x \<Rightarrow> x \<noteq> [])"

definition fs_readFile :: "string \<Rightarrow> (string, 'ix) io" where
  "fs_readFile path =
     (\<lambda>w. case files w path of None \<Rightarrow> (Inl ENOENT, w) | Some bytes \<Rightarrow> (Inr bytes, w))"

definition fs_unlink :: "string \<Rightarrow> (unit, 'ix) io" where
  "fs_unlink path =
     (\<lambda>w. case files w path of
         None \<Rightarrow> (Inl ENOENT, w\<lparr>trace := trace w @ [Unlink path]\<rparr>)
       | Some _ \<Rightarrow> (Inr (), w\<lparr>files := (files w)(path := None), trace := trace w @ [Unlink path]\<rparr>))"

text \<open>
  \<open>prisma.policy.update\<close>: the relational client rejects an update whose \<open>where\<close>
  matches no row.
\<close>

definition prisma_policy_update :: "string \<Rightarrow> (Policy \<Rightarrow> Policy) \<Rightarrow> (unit, 'ix) io" where
  "prisma_policy_update pid f =
     (\<lambda>w. case policies w pid of
         None \<Rightarrow> (Inl RecordNotFound, w)
       | Some p \<Rightarrow> (Inr (), w\<lparr>policies := (policies w)(pid \<mapsto> f p)\<rparr>))"

definition prisma_policyChunk_createMany ::
  "env \<Rightarrow> string \<Rightarrow> ProcessedChunk list \<Rightarrow> (unit, 'ix) io"
where
  "prisma_policyChunk_createMany env pid chunks =
     (\<lambda>w. (Inr (),
        w\<lparr>policyChunks := policyChunks w @
             map (\<lambda>(chunk, i).
                    \<lparr>c_id = newId env (length (policyChunks w) + i),
                     c_policyId = pid,
                     c_content = pc_content chunk,
                     c_pageNumber = pc_pageNumber chunk,
                     c_chunkIndex = pc_chunkIndex chunk\<rparr>)
                 (zip chunks [0 ..< length chunks])\<rparr>))"

definition new_Date :: "(nat, 'ix) io" where
  "new_Date = (\<lambda>w. (Inr (now w), w))"

definition resolveBuffer :: "IngestionJob \<Rightarrow> (string, 'ix) io" where
  "resolveBuffer job =
     (if job_buffer job \<noteq> None then ret (the (job_buffer job))
      else if truthy_str (job_filePath job) then fs_readFile (the (job_filePath job))
      else throw (Error ''No buffer or file path provided for ingestion job''))"

text \<open>
  The body of the worker's \<open>while\<close> loop for one job, block by block. The effect of
  \<open>processAndStorePDF\<close> on the vector index is not part of this state.
\<close>

text \<open>The \<open>try\<close> block.\<close>

definition jobTry :: "env \<Rightarrow> IngestionJob \<Rightarrow> (unit, 'ix) io" where
  "jobTry env job =
     andThen (prisma_policy_findUnique (job_policyId job)) (\<lambda>found.
     case found of
       None \<Rightarrow> throw (Error (''Policy '' @ job_policyId job @ '' not found''))
     | Some policy \<Rightarrow>
     andThen (resolveBuffer job) (\<lambda>buffer.
     andThen
       (lift (processAndStorePDF env buffer (job_policyId job) (p_stateId policy)
                (p_stateName policy) (p_title policy)))
       (\<lambda>processed.
     andThen (prisma_policyChunk_createMany env (job_policyId job) processed) (\<lambda>_.
     andThen (extractPolicyFacts env (job_policyId job)) (\<lambda>_.
     andThen new_Date (\<lambda>t.
     prisma_policy_update (job_policyId job)
       (\<lambda>p. p\<lparr>p_status := Completed, p_processedAt := Some t\<rparr>)))))))"

text \<open>The \<open>catch\<close> block.\<close>

definition jobCatch :: "IngestionJob \<Rightarrow> error \<Rightarrow> (unit, 'ix) io" where
  "jobCatch job err =
     andThen (emit (ConsoleError ''Failed processing policy'')) (\<lambda>_.
     prisma_policy_update (job_policyId job) (\<lambda>p. p\<lparr>p_status := Failed\<rparr>))"

text \<open>The \<open>finally\<close> block.\<close>

definition jobFinally :: "IngestionJob \<Rightarrow> (unit, 'ix) io" where
  "jobFinally job =
     (if job_deleteFileAfter job = Some True \<and> truthy_str (job_filePath job) then
        tryCatch (fs_unlink (the (job_filePath job)))
          (\<lambda>unlinkError. emit (ConsoleWarn ''Failed to delete temp file''))
      else ret ())"

definition processJob :: "env \<Rightarrow> IngestionJob \<Rightarrow> (unit, 'ix) io" where
  "processJob env job =
     tryFinally (tryCatch (jobTry env job) (jobCatch job)) (jobFinally job)"

text \<open>
  The \<open>while (jobQueue.length > 0)\<close> loop: each turn shifts one job off the queue; an
  error that leaves \<open>processJob\<close> leaves the loop and the function with it, the rest of
  the queue untouched.
\<close>

fun drain ::
  "env \<Rightarrow> IngestionJob list \<Rightarrow> 'ix world \<Rightarrow> (error + unit) \<times> IngestionJob list \<times> 'ix world"
where
  "drain env [] w = (Inr (), [], w)"
| "drain env (job # rest) w =
     (case processJob env job w of
        (Inl e, w') \<Rightarrow> (Inl e, rest, w')
      | (Inr _, w') \<Rightarrow> drain env rest w')"

text \<open>
  \<open>processQueue\<close>, run until its promise settles. \<open>isProcessing = false\<close> is the
  statement after the loop, so it is reached only when the loop ends without an error.
\<close>

definition processQueue ::
  "env \<Rightarrow> QueueState \<Rightarrow> 'ix world \<Rightarrow> (error + unit) \<times> QueueState \<times> 'ix world"
where
  "processQueue env st w =
     (if isProcessing st then (Inr (), st, w)
      else case drain env (jobQueue st) w of
             (Inl e, rest, w') \<Rightarrow> (Inl e, \<lparr>jobQueue = rest, isProcessing = True\<rparr>, w')
           | (Inr _, rest, w') \<Rightarrow> (Inr (), \<lparr>jobQueue = rest, isProcessing = False\<rparr>, w'))"

text \<open>
  \<open>queuePolicyProcessing\<close>: push the job, start the worker and drop its promise
  (\<open>void processQueue()\<close>), so a rejection never reaches the caller.
\<close>

definition queuePolicyProcessing ::
  "env \<Rightarrow> string \<Rightarrow> string option \<Rightarrow> string option \<Rightarrow> bool option \<Rightarrow>
   QueueState \<Rightarrow> 'ix world \<Rightarrow> QueueState \<times> 'ix world"
where
  "queuePolicyProcessing env pid buffer filePath deleteFileAfter st w =
     (let job = \<lparr>job_policyId = pid, job_buffer = buffer, job_filePath = filePath,
                 job_deleteFileAfter = deleteFileAfter\<rparr>
      in snd (processQueue env (st\<lparr>jobQueue := jobQueue st @ [job]\<rparr>) w))"

section \<open>The vector index service\<close>

text \<open>
  Modelled from the spec: the vector index service behind \<open>pineconeIndex\<close> is not part
  of the repository's sources. Following section 4.2, the index holds entries keyed by id;
  a query restricts the entries by the metadata filter before ranking them by similarity
  to the query vector and returns up to \<open>topK\<close> of them; an upsert overwrites the entry
  with the same id and fails for a vector whose length is not the fixed dimensionality;
  a delete removes the entries with the given ids. The similarity metric is a parameter.
\<close>

definition spec_matches :: "metadata_filter option \<Rightarrow> VectorEntry \<Rightarrow> bool" where
  "spec_matches flt e = (case flt of
      None \<Rightarrow> True
    | Some (FieldEq k s) \<Rightarrow> map_of (v_metadata e) k = Some (JStr s)
    | Some (FieldIn k names) \<Rightarrow> (\<exists>s \<in> set names. map_of (v_metadata e) k = Some (JStr s)))"

definition spec_query ::
  "(real list \<Rightarrow> real list \<Rightarrow> real) \<Rightarrow> VectorEntry list \<Rightarrow> QueryRequest \<Rightarrow> error + QueryResponse"
where
  "spec_query metric ix req =
     Inr \<lparr>matches = Some
       (map (\<lambda>e. \<lparr>m_id = v_id e,
                  m_score = Some (metric (q_vector req) (v_values e)),
                  m_metadata = (if q_includeMetadata req then Some (v_metadata e) else None)\<rparr>)
          (take (nat (q_topK req))
             (sort_key (\<lambda>e. - metric (q_vector req) (v_values e))
                (filter (spec_matches (q_filter req)) ix))))\<rparr>"

definition spec_upsert1 :: "VectorEntry list \<Rightarrow> VectorEntry \<Rightarrow> VectorEntry list" where
  "spec_upsert1 ix e =
     (if \<exists>x \<in> set ix. v_id x = v_id e
      then map (\<lambda>x. if v_id x = v_id e then e else x) ix
      else ix @ [e])"

definition spec_upsert :: "VectorEntry list \<Rightarrow> VectorEntry list \<Rightarrow> error + VectorEntry list" where
  "spec_upsert ix entries =
     (if \<exists>e \<in> set entries. length (v_values e) \<noteq> VECTOR_DIMENSIONS
      then Inl DimensionMismatch
      else Inr (foldl spec_upsert1 ix entries))"

definition spec_deleteMany :: "VectorEntry list \<Rightarrow> string list \<Rightarrow> error + VectorEntry list" where
  "spec_deleteMany ix ids = Inr (filter (\<lambda>e. v_id e \<notin> set ids) ix)"

definition spec_pinecone :: "(real list \<Rightarrow> real list \<Rightarrow> real) \<Rightarrow> (VectorEntry list) pinecone" where
  "spec_pinecone metric =
     \<lparr>px_query = spec_query metric, px_upsert = spec_upsert, px_deleteMany = spec_deleteMany\<rparr>"

section \<open>Notions used in the statements\<close>

text \<open>The one request that \<open>hybridSearch\<close> sends to the index.\<close>

definition searchRequest :: "real list \<Rightarrow> string list option \<Rightarrow> int \<Rightarrow> QueryRequest" where
  "searchRequest emb stateFilter topK =
     \<lparr>q_vector = emb, q_topK = topK * 2, q_includeMetadata = True,
      q_filter = map_option (FieldIn ''stateName'') stateFilter\<rparr>"

text \<open>The \<open>filter\<close>, \<open>map\<close>, \<open>sort\<close>, \<open>slice\<close> chain applied to the index's response.\<close>

definition rankedResults :: "env \<Rightarrow> QueryResponse \<Rightarrow> int \<Rightarrow> SearchResult list" where
  "rankedResults env resp topK =
     js_slice0
       (sort_key (\<lambda>r. - similarity r)
          (map (toSearchResult env)
             (filter clears_threshold (case matches resp of None \<Rightarrow> [] | Some ms \<Rightarrow> ms))))
       topK"

text \<open>
  The filter of \<open>deletePolicyVectors\<close>, the index entries it selects, and the request
  that enumerates them.
\<close>

definition policyFilter :: "string \<Rightarrow> metadata_filter option" where
  "policyFilter pid = Some (FieldEq ''policyId'' pid)"

definition policyEntries :: "string \<Rightarrow> VectorEntry list \<Rightarrow> VectorEntry list" where
  "policyEntries pid ix = filter (spec_matches (policyFilter pid)) ix"

definition enumerationRequest :: "string \<Rightarrow> QueryRequest" where
  "enumerationRequest pid =
     \<lparr>q_vector = replicate 768 0, q_topK = 10000, q_includeMetadata = False,
      q_filter = Some (FieldEq ''policyId'' pid)\<rparr>"

text \<open>
  The messages and options of the one generation call of \<open>extractPolicyFacts\<close>, the
  property \<open>k\<close> of a parsed fact, the row that \<open>policyFact.create\<close> receives for a
  fact, and the outcome of the parse step (the value of \<open>result\<close> and what it logs).
\<close>

definition extractionMessages :: "Policy \<Rightarrow> string \<Rightarrow> 'ix world \<Rightarrow> ChatMessage list" where
  "extractionMessages policy pid w =
     [\<lparr>role = ''system'', msg_content = extractionSystemPrompt\<rparr>,
      \<lparr>role = ''user'', msg_content =
         ''Extract facts from this '' @ p_stateName policy @ '' policy:\<newline>\<newline>'' @
         take 12000
           (join_with ''\<newline>''
              (map c_content (filter (\<lambda>c. c_policyId c = pid) (policyChunks w))))\<rparr>]"

definition extractionOptions :: GenOptions where
  "extractionOptions = \<lparr>temperature = 1 / 10, numPredict = 1024\<rparr>"

definition propOf :: "json \<Rightarrow> string \<Rightarrow> json option" where
  "propOf v k = (case v of JObj kvs \<Rightarrow> map_of kvs k | _ \<Rightarrow> None)"

definition factRow :: "string \<Rightarrow> string \<Rightarrow> json \<Rightarrow> PolicyFactData" where
  "factRow pid sid fact_obj =
     \<lparr>pf_policyId = pid,
      pf_stateId = sid,
      pf_category = propOf fact_obj ''category'',
      pf_field = propOf fact_obj ''field'',
      pf_value = propOf fact_obj ''value'',
      pf_confidence = confidenceOrDefault (propOf fact_obj ''confidence''),
      pf_pageNumber = propOf fact_obj ''page''\<rparr>"

definition parseStep :: "env \<Rightarrow> string \<Rightarrow> json \<times> event list" where
  "parseStep env raw =
     (case json_span raw of
        None \<Rightarrow> (JObj [], [])
      | Some jsonText \<Rightarrow>
          (case JSON_parse env jsonText of
             Inl err \<Rightarrow> (JObj [], [ConsoleWarn ''Failed to parse extracted facts JSON''])
           | Inr v \<Rightarrow> (v, [])))"

text \<open>
  What the \<open>finally\<close> block adds to the trace for a temporary file: the unlink, and the
  warning when the file was not there to unlink.
\<close>

definition tempFileEvents :: "string \<Rightarrow> 'ix world \<Rightarrow> event list" where
  "tempFileEvents path w =
     Unlink path # (if files w path = None then [ConsoleWarn ''Failed to delete temp file''] else [])"

text \<open>A computation keeps a view \<open>h\<close> of the Policy table when no run of it changes it.\<close>

definition keeps :: "((string \<rightharpoonup> Policy) \<Rightarrow> 'b) \<Rightarrow> ('a, 'ix) io \<Rightarrow> bool" where
  "keeps h m = (\<forall>w. h (policies (snd (m w))) = h (policies w))"

section \<open>Sample collaborators and inputs\<close>

text \<open>
  Concrete collaborators for the examples below. The built-in conversions are given as
  finite tables that agree with the language on the strings and numbers the examples use:
  \<open>Number("7")\<close> is \<open>7\<close>, and the strings used as non-JSON text do not parse.
\<close>

definition sample_matches :: "ScoredMatch list" where
  "sample_matches =
     [\<lparr>m_id = ''p1-chunk-0'', m_score = Some (9 / 10),
       m_metadata = Some [(''content'', JStr ''Live video is covered.''),
                          (''pageNumber'', JNum 3),
                          (''policyId'', JStr ''p1''),
                          (''stateName'', JStr ''Texas''),
                          (''policyTitle'', JStr ''Texas Medicaid Manual'')]\<rparr>,
      \<lparr>m_id = ''p2-chunk-4'', m_score = Some (1 / 2), m_metadata = None\<rparr>,
      \<lparr>m_id = ''p3-chunk-1'', m_score = None, m_metadata = None\<rparr>,
      \<lparr>m_id = ''p1-chunk-1'', m_score = Some (19 / 20), m_metadata = None\<rparr>]"

definition sample_env :: env where
  "sample_env =
     \<lparr>StringToNumber = (\<lambda>s. if s = ''7'' then Fin 7 else NaN),
      NumberToString = (\<lambda>n. if n = Fin 1 then ''1'' else if n = Fin 2 then ''2''
                            else if n = Fin 3 then ''3'' else ''NaN''),
      JSON_parse = (\<lambda>s. Inl SyntaxError),
      generateEmbedding = (\<lambda>text. Inr [1, 0, 0]),
      generateChatCompletion = (\<lambda>messages opts. Inr ''Live video is covered [1].''),
      processAndStorePDF = (\<lambda>buffer pid sid sname title.
         Inr [\<lparr>pc_content = buffer, pc_pageNumber = 1, pc_chunkIndex = 0\<rparr>]),
      policyFactAccepted = (\<lambda>d. True),
      newId = (\<lambda>n. replicate (Suc n) CHR ''c'')\<rparr>"

text \<open>An index client that answers every query with the same matches.\<close>

definition fixed_pinecone :: "ScoredMatch list \<Rightarrow> unit pinecone" where
  "fixed_pinecone ms =
     \<lparr>px_query = (\<lambda>ix req. Inr \<lparr>matches = Some ms\<rparr>),
      px_upsert = (\<lambda>ix vectors. Inr ix),
      px_deleteMany = (\<lambda>ix ids. Inr ix)\<rparr>"

definition empty_world :: "'ix \<Rightarrow> 'ix world" where
  "empty_world ix =
     \<lparr>policies = Map.empty, policyChunks = [], policyFacts = [], files = Map.empty,
      index = ix, now = 0, trace = []\<rparr>"

definition sample_result_a :: SearchResult where
  "sample_result_a =
     \<lparr>chunkId = ''p1-chunk-1'', content = '''', pageNumber = Fin 1, similarity = 19 / 20,
      policyId = '''', stateName = ''Unknown'', policyTitle = ''Unknown Policy''\<rparr>"

definition sample_result_b :: SearchResult where
  "sample_result_b =
     \<lparr>chunkId = ''p1-chunk-0'', content = ''Live video is covered.'', pageNumber = Fin 3,
      similarity = 9 / 10, policyId = ''p1'', stateName = ''Texas'',
      policyTitle = ''Texas Medicaid Manual''\<rparr>"

definition mistyped_match :: ScoredMatch where
  "mistyped_match =
     \<lparr>m_id = ''p4-chunk-0'', m_score = Some (4 / 5),
      m_metadata = Some [(''pageNumber'', JStr ''7''), (''stateName'', JNum 48)]\<rparr>"

definition boolean_page_match :: ScoredMatch where
  "boolean_page_match =
     \<lparr>m_id = ''p4-chunk-1'', m_score = Some (4 / 5),
      m_metadata = Some [(''pageNumber'', JBool False)]\<rparr>"

definition low_score_matches :: "ScoredMatch list" where
  "low_score_matches =
     [\<lparr>m_id = ''p2-chunk-4'', m_score = Some (1 / 2), m_metadata = None\<rparr>,
      \<lparr>m_id = ''p2-chunk-5'', m_score = Some (69 / 100), m_metadata = None\<rparr>]"

definition sample_answer :: RAGResponse where
  "sample_answer =
     \<lparr>answer = ''Live video is covered [1].'',
      confidence = 1,
      citations =
        [\<lparr>cit_content = '''', cit_pageNumber = Fin 1, cit_stateName = ''Unknown'',
          cit_policyTitle = ''Unknown Policy''\<rparr>,
         \<lparr>cit_content = ''Live video is covered.'', cit_pageNumber = Fin 3,
          cit_stateName = ''Texas'', cit_policyTitle = ''Texas Medicaid Manual''\<rparr>],
      suggestedQueries = None\<rparr>"

definition short_entry :: VectorEntry where
  "short_entry = \<lparr>v_id = ''p1-chunk-0'', v_values = [1, 0, 0], v_metadata = [(''policyId'', JStr ''p1'')]\<rparr>"

definition sample_index :: "VectorEntry list" where
  "sample_index =
     [\<lparr>v_id = ''p1-chunk-0'', v_values = [1, 0], v_metadata = [(''policyId'', JStr ''p1'')]\<rparr>,
      \<lparr>v_id = ''p2-chunk-0'', v_values = [0, 1], v_metadata = [(''policyId'', JStr ''p2'')]\<rparr>,
      \<lparr>v_id = ''p1-chunk-1'', v_values = [1, 1], v_metadata = [(''policyId'', JStr ''p1'')]\<rparr>]"

text \<open>A similarity metric for the examples: the inner product.\<close>

definition dot :: "real list \<Rightarrow> real list \<Rightarrow> real" where
  "dot xs ys = sum_list (map (\<lambda>(x, y). x * y) (zip xs ys))"

definition sample_policy :: Policy where
  "sample_policy =
     \<lparr>p_stateId = ''tx'', p_stateName = ''Texas'', p_title = ''Texas Medicaid Manual'',
      p_status = Pending, p_processedAt = None\<rparr>"

definition sample_world :: "unit world" where
  "sample_world =
     \<lparr>policies = [''p1'' \<mapsto> sample_policy],
      policyChunks =
        [\<lparr>c_id = ''c'', c_policyId = ''p1'', c_content = ''Live video is covered.'',
          c_pageNumber = 3, c_chunkIndex = 0\<rparr>],
      policyFacts = [],
      files = [''/tmp/upload-1.pdf'' \<mapsto> ''%PDF-1.7''],
      index = (),
      now = 1700,
      trace = []\<rparr>"

definition facts_json_text :: string where
  \<open>facts_json_text =
     ''{"facts":[{"category":"modality","field":"rpm","value":"Not covered","confidence":0,"page":2},'' @
     ''{"category":"consent","field":"verbal","value":"Required","confidence":null}]}''\<close>

definition sample_facts :: "json list" where
  "sample_facts =
     [JObj [(''category'', JStr ''modality''), (''field'', JStr ''rpm''),
            (''value'', JStr ''Not covered''), (''confidence'', JNum 0), (''page'', JNum 2)],
      JObj [(''category'', JStr ''consent''), (''field'', JStr ''verbal''),
            (''value'', JStr ''Required''), (''confidence'', JNull)]]"

definition facts_json :: json where
  "facts_json = JObj [(''facts'', JArr sample_facts)]"

definition reply_with_facts :: string where
  "reply_with_facts = ''Here are the facts: '' @ facts_json_text @ '' Done.''"

definition reply_without_span :: string where
  "reply_without_span = ''No facts could be extracted.''"

definition reply_unparsable :: string where
  "reply_unparsable = ''Facts: {category: modality} and more''"

text \<open>
  The model replies with a fixed text, and \<open>JSON.parse\<close> is the table that parses
  \<open>facts_json_text\<close> and rejects the other spans of the examples, none of which is JSON.
\<close>

definition facts_env :: "string \<Rightarrow> env" where
  "facts_env reply =
     sample_env
       \<lparr>JSON_parse := (\<lambda>s. if s = facts_json_text then Inr facts_json else Inl SyntaxError),
        generateChatCompletion := (\<lambda>messages opts. Inr reply)\<rparr>"

text \<open>
  Jobs for the worker: for a policy id that is not in the store, for the stored policy
  with an in-memory buffer, with a temporary file, and with a temporary file that is already
  gone; and collaborators whose embedding step fails.
\<close>

definition ghost_job :: IngestionJob where
  "ghost_job =
     \<lparr>job_policyId = ''ghost'', job_buffer = None, job_filePath = Some ''/tmp/upload-1.pdf'',
      job_deleteFileAfter = Some True\<rparr>"

definition good_job :: IngestionJob where
  "good_job =
     \<lparr>job_policyId = ''p1'', job_buffer = Some ''%PDF-1.7'', job_filePath = None,
      job_deleteFileAfter = None\<rparr>"

definition file_job :: IngestionJob where
  "file_job =
     \<lparr>job_policyId = ''p1'', job_buffer = None, job_filePath = Some ''/tmp/upload-1.pdf'',
      job_deleteFileAfter = Some True\<rparr>"

definition gone_file_job :: IngestionJob where
  "gone_file_job =
     \<lparr>job_policyId = ''p1'', job_buffer = Some ''%PDF-1.7'',
      job_filePath = Some ''/tmp/already-removed.pdf'', job_deleteFileAfter = Some True\<rparr>"

definition failing_env :: env where
  "failing_env =
     sample_env
       \<lparr>processAndStorePDF :=
          (\<lambda>buffer pid sid sname title. Inl (Upstream ''embedding model unreachable''))\<rparr>"

definition poisoned_queue :: QueueState where
  "poisoned_queue = \<lparr>jobQueue = [ghost_job, good_job], isProcessing = False\<rparr>"

definition stalled_queue :: QueueState where
  "stalled_queue = \<lparr>jobQueue = [good_job], isProcessing = True\<rparr>"

section \<open>Basic lemmas\<close>

lemma tryCatch_same: "body w = body' w' \<Longrightarrow> tryCatch body h w = tryCatch body' h w'"
  by (simp add: tryCatch_def)

lemma andThen_Inr: "m w = (Inr x, w') \<Longrightarrow> andThen m f w = f x w'"
  by (simp add: andThen_def)

section \<open>Hybrid retrieval: properties\<close>

lemma js_slice0_length: "0 \<le> e \<Longrightarrow> int (length (js_slice0 xs e)) \<le> e"
  by (simp add: js_slice0_def Let_def)

lemma js_slice0_subset: "set (js_slice0 xs e) \<subseteq> set xs"
  by (auto simp: js_slice0_def Let_def dest: in_set_takeD)

lemma sorted_wrt_take: "sorted_wrt P xs \<Longrightarrow> sorted_wrt P (take n xs)"
  by (metis append_take_drop_id sorted_wrt_append)

lemma js_slice0_sorted_wrt: "sorted_wrt P xs \<Longrightarrow> sorted_wrt P (js_slice0 xs e)"
  by (simp add: js_slice0_def Let_def sorted_wrt_take)

lemma sort_desc_sorted_wrt:
  "sorted_wrt (\<lambda>a b. similarity b \<le> similarity a) (sort_key (\<lambda>r. - similarity r) xs)"
proof -
  have "sorted (map (\<lambda>r. - similarity r) (sort_key (\<lambda>r. - similarity r) xs))"
    by (rule sorted_sort_key)
  then show ?thesis
    by (simp add: sorted_map)
qed

lemma toSearchResult_similarity:
  "clears_threshold m \<Longrightarrow> 7 / 10 \<le> similarity (toSearchResult env m)"
  by (auto simp: clears_threshold_def toSearchResult_def SIMILARITY_THRESHOLD_def Let_def
           split: option.splits)

lemma hybridSearch_Inr:
  assumes "hybridSearch pc env query stateFilter topK w = (Inr results, w')"
  shows "\<exists>emb resp.
           generateEmbedding env query = Inr emb
         \<and> px_query pc (index w) (searchRequest emb stateFilter topK) = Inr resp
         \<and> w' = w\<lparr>trace := trace w @
             [EmbeddingCall query, IndexQuery (searchRequest emb stateFilter topK)]\<rparr>
         \<and> results = rankedResults env resp topK"
  using assms
  by (auto simp: hybridSearch_def tryCatch_def andThen_def generateEmbedding_call_def
        pure_call_def queryVectors_def pineconeIndex_query_def ret_def throw_def emit_def Let_def
        searchRequest_def rankedResults_def
      split: sum.splits prod.splits option.splits)

lemma hybridSearch_succeeds:
  assumes "generateEmbedding env query = Inr emb"
    and "px_query pc (index w) (searchRequest emb stateFilter topK) = Inr resp"
  shows "hybridSearch pc env query stateFilter topK w =
           (Inr (rankedResults env resp topK),
            w\<lparr>trace := trace w @
              [EmbeddingCall query, IndexQuery (searchRequest emb stateFilter topK)]\<rparr>)"
  using assms
  by (auto simp: hybridSearch_def tryCatch_def andThen_def generateEmbedding_call_def
        pure_call_def queryVectors_def pineconeIndex_query_def ret_def throw_def emit_def Let_def
        searchRequest_def rankedResults_def
      split: sum.splits prod.splits option.splits)

lemma rankedResults_props:
  "(\<forall>r \<in> set (rankedResults env resp topK). 7 / 10 \<le> similarity r)
   \<and> sorted_wrt (\<lambda>a b. similarity b \<le> similarity a) (rankedResults env resp topK)
   \<and> (0 \<le> topK \<longrightarrow> int (length (rankedResults env resp topK)) \<le> topK)"
proof -
  let ?cands = "filter clears_threshold (case matches resp of None \<Rightarrow> [] | Some ms \<Rightarrow> ms)"
  let ?sorted = "sort_key (\<lambda>r. - similarity r) (map (toSearchResult env) ?cands)"
  have "set (rankedResults env resp topK) \<subseteq> set ?sorted"
    unfolding rankedResults_def by (rule js_slice0_subset)
  then have "set (rankedResults env resp topK) \<subseteq> toSearchResult env ` set ?cands"
    by simp
  then have a: "\<forall>r \<in> set (rankedResults env resp topK). 7 / 10 \<le> similarity r"
    using toSearchResult_similarity by fastforce
  have b: "sorted_wrt (\<lambda>a b. similarity b \<le> similarity a) (rankedResults env resp topK)"
    unfolding rankedResults_def by (rule js_slice0_sorted_wrt) (rule sort_desc_sorted_wrt)
  have c: "0 \<le> topK \<longrightarrow> int (length (rankedResults env resp topK)) \<le> topK"
    unfolding rankedResults_def by (simp add: js_slice0_length)
  from a b c show ?thesis by blast
qed

lemma sample_ranked:
  "rankedResults sample_env \<lparr>matches = Some sample_matches\<rparr> topK =
     js_slice0 [sample_result_a, sample_result_b] topK"
  by (simp add: rankedResults_def sample_matches_def sample_env_def clears_threshold_def
        SIMILARITY_THRESHOLD_def toSearchResult_def metadataOf_def nullish_def js_Number_def
        sample_result_a_def sample_result_b_def)

lemma sample_search:
  "hybridSearch (fixed_pinecone sample_matches) sample_env query None topK (empty_world ()) =
     (Inr (js_slice0 [sample_result_a, sample_result_b] topK),
      (empty_world ())\<lparr>trace := trace (empty_world ()) @
         [EmbeddingCall query, IndexQuery (searchRequest [1, 0, 0] None topK)]\<rparr>)"
proof -
  have "hybridSearch (fixed_pinecone sample_matches) sample_env query None topK (empty_world ()) =
     (Inr (rankedResults sample_env \<lparr>matches = Some sample_matches\<rparr> topK),
      (empty_world ())\<lparr>trace := trace (empty_world ()) @
         [EmbeddingCall query, IndexQuery (searchRequest [1, 0, 0] None topK)]\<rparr>)"
    by (rule hybridSearch_succeeds) (simp_all add: sample_env_def fixed_pinecone_def)
  then show ?thesis by (simp add: sample_ranked)
qed

text \<open>
  C2: whenever \<open>hybridSearch\<close> returns a list, every element has similarity at least
  0.7, the list is in descending order of similarity, and, for a requested \<open>topK\<close> that is
  not negative, it has at most \<open>topK\<close> elements. The run made exactly one request to the
  vector index, for \<open>2 * topK\<close> candidates, and the returned elements are normalised
  candidates of that response that clear the threshold.
\<close>

theorem hybridSearch_threshold_sorted_bounded:
  assumes "hybridSearch pc env query stateFilter topK w = (Inr results, w')"
  shows "(\<forall>r \<in> set results. 7 / 10 \<le> similarity r)
       \<and> sorted_wrt (\<lambda>a b. similarity b \<le> similarity a) results
       \<and> (0 \<le> topK \<longrightarrow> int (length results) \<le> topK)
       \<and> (\<exists>emb resp.
            trace w' = trace w @
              [EmbeddingCall query,
               IndexQuery \<lparr>q_vector = emb, q_topK = 2 * topK, q_includeMetadata = True,
                           q_filter = map_option (FieldIn ''stateName'') stateFilter\<rparr>]
          \<and> px_query pc (index w)
               \<lparr>q_vector = emb, q_topK = 2 * topK, q_includeMetadata = True,
                q_filter = map_option (FieldIn ''stateName'') stateFilter\<rparr> = Inr resp
          \<and> set results \<subseteq> toSearchResult env `
               {m \<in> set (case matches resp of None \<Rightarrow> [] | Some ms \<Rightarrow> ms). clears_threshold m})"
proof -
  from hybridSearch_Inr [OF assms] obtain emb resp where
    q: "px_query pc (index w) (searchRequest emb stateFilter topK) = Inr resp"
    and w': "w' = w\<lparr>trace := trace w @
               [EmbeddingCall query, IndexQuery (searchRequest emb stateFilter topK)]\<rparr>"
    and r: "results = rankedResults env resp topK"
    by blast
  have sub: "set results \<subseteq> toSearchResult env `
               {m \<in> set (case matches resp of None \<Rightarrow> [] | Some ms \<Rightarrow> ms). clears_threshold m}"
    unfolding r rankedResults_def using js_slice0_subset by fastforce
  have req: "searchRequest emb stateFilter topK =
      \<lparr>q_vector = emb, q_topK = 2 * topK, q_includeMetadata = True,
       q_filter = map_option (FieldIn ''stateName'') stateFilter\<rparr>"
    by (simp add: searchRequest_def mult.commute)
  from q w' sub req rankedResults_props [of env resp topK] r show ?thesis
    by auto
qed

theorem hybridSearch_threshold_sorted_bounded_witness:
  "fst (hybridSearch (fixed_pinecone sample_matches) sample_env ''live video'' None 2
          (empty_world ())) = Inr [sample_result_a, sample_result_b]
   \<and> 7 / 10 \<le> similarity sample_result_a \<and> 7 / 10 \<le> similarity sample_result_b
   \<and> similarity sample_result_b \<le> similarity sample_result_a
   \<and> int (length [sample_result_a, sample_result_b]) \<le> 2"
proof -
  have h: "hybridSearch (fixed_pinecone sample_matches) sample_env ''live video'' None 2
             (empty_world ()) =
           (Inr [sample_result_a, sample_result_b],
            (empty_world ())\<lparr>trace := trace (empty_world ()) @
              [EmbeddingCall ''live video'', IndexQuery (searchRequest [1, 0, 0] None 2)]\<rparr>)"
    by (simp add: sample_search js_slice0_def)
  from hybridSearch_threshold_sorted_bounded [OF h] h show ?thesis
    by simp
qed

text \<open>
  C5 (as amended): when the embedding and the index query succeed, the search returns
  whatever the candidates' metadata holds. In the normalised result a \<open>stateName\<close> that is
  missing or not a string becomes "Unknown", a \<open>policyTitle\<close> that is missing or not a
  string becomes "Unknown Policy", a \<open>pageNumber\<close> that is missing or \<open>null\<close> becomes 1,
  a \<open>pageNumber\<close> that is a number is kept, and a \<open>pageNumber\<close> of any other type is
  coerced with \<open>Number(...)\<close> rather than replaced by 1.
\<close>

theorem toSearchResult_defaults:
  assumes "generateEmbedding env query = Inr emb"
    and "px_query pc (index w)
           \<lparr>q_vector = emb, q_topK = topK * 2, q_includeMetadata = True,
            q_filter = map_option (FieldIn ''stateName'') stateFilter\<rparr> = Inr resp"
  shows "fst (hybridSearch pc env query stateFilter topK w) =
           Inr (js_slice0
                  (sort_key (\<lambda>r. - similarity r)
                     (map (toSearchResult env)
                        (filter clears_threshold
                           (case matches resp of None \<Rightarrow> [] | Some ms \<Rightarrow> ms))))
                  topK)
       \<and> (\<forall>m. ((\<forall>s. map_of (metadataOf m) ''stateName'' \<noteq> Some (JStr s)) \<longrightarrow>
                   stateName (toSearchResult env m) = ''Unknown'')
             \<and> ((\<forall>s. map_of (metadataOf m) ''policyTitle'' \<noteq> Some (JStr s)) \<longrightarrow>
                   policyTitle (toSearchResult env m) = ''Unknown Policy'')
             \<and> (map_of (metadataOf m) ''pageNumber'' = None
                 \<or> map_of (metadataOf m) ''pageNumber'' = Some JNull \<longrightarrow>
                   pageNumber (toSearchResult env m) = Fin 1)
             \<and> (\<forall>n. map_of (metadataOf m) ''pageNumber'' = Some (JNum n) \<longrightarrow>
                   pageNumber (toSearchResult env m) = Fin n)
             \<and> (\<forall>v. map_of (metadataOf m) ''pageNumber'' = Some v \<longrightarrow> v \<noteq> JNull \<longrightarrow>
                   pageNumber (toSearchResult env m) = js_Number env v))"
proof -
  have "searchRequest emb stateFilter topK =
      \<lparr>q_vector = emb, q_topK = topK * 2, q_includeMetadata = True,
       q_filter = map_option (FieldIn ''stateName'') stateFilter\<rparr>"
    by (simp add: searchRequest_def)
  with assms have
    "fst (hybridSearch pc env query stateFilter topK w) = Inr (rankedResults env resp topK)"
    by (simp add: hybridSearch_succeeds)
  moreover have "\<And>m. ((\<forall>s. map_of (metadataOf m) ''stateName'' \<noteq> Some (JStr s)) \<longrightarrow>
                   stateName (toSearchResult env m) = ''Unknown'')"
    by (auto simp: toSearchResult_def Let_def split: option.splits json.splits)
  moreover have "\<And>m. ((\<forall>s. map_of (metadataOf m) ''policyTitle'' \<noteq> Some (JStr s)) \<longrightarrow>
                   policyTitle (toSearchResult env m) = ''Unknown Policy'')"
    by (auto simp: toSearchResult_def Let_def split: option.splits json.splits)
  moreover have "\<And>m. (map_of (metadataOf m) ''pageNumber'' = None
                 \<or> map_of (metadataOf m) ''pageNumber'' = Some JNull \<longrightarrow>
                   pageNumber (toSearchResult env m) = Fin 1)"
    by (auto simp: toSearchResult_def Let_def nullish_def js_Number_def)
  moreover have "\<And>m n. map_of (metadataOf m) ''pageNumber'' = Some (JNum n) \<longrightarrow>
                   pageNumber (toSearchResult env m) = Fin n"
    by (auto simp: toSearchResult_def Let_def)
  moreover have "\<And>m v. map_of (metadataOf m) ''pageNumber'' = Some v \<longrightarrow> v \<noteq> JNull \<longrightarrow>
                   pageNumber (toSearchResult env m) = js_Number env v"
    by (auto simp: toSearchResult_def Let_def nullish_def js_Number_def split: json.splits)
  ultimately show ?thesis
    unfolding rankedResults_def by blast
qed

theorem toSearchResult_defaults_witness:
  "fst (hybridSearch (fixed_pinecone [mistyped_match]) sample_env ''consent'' None 5
          (empty_world ())) = Inr [toSearchResult sample_env mistyped_match]
   \<and> stateName (toSearchResult sample_env mistyped_match) = ''Unknown''
   \<and> policyTitle (toSearchResult sample_env mistyped_match) = ''Unknown Policy''
   \<and> pageNumber (toSearchResult sample_env mistyped_match) = Fin 7
   \<and> pageNumber (toSearchResult sample_env (sample_matches ! 1)) = Fin 1
   \<and> pageNumber (toSearchResult sample_env (sample_matches ! 0)) = Fin 3"
proof -
  have e: "generateEmbedding sample_env ''consent'' = Inr [1, 0, 0]"
    by (simp add: sample_env_def)
  have q: "px_query (fixed_pinecone [mistyped_match]) (index (empty_world ()))
             \<lparr>q_vector = [1, 0, 0], q_topK = 5 * 2, q_includeMetadata = True,
              q_filter = map_option (FieldIn ''stateName'') None\<rparr> =
           Inr \<lparr>matches = Some [mistyped_match]\<rparr>"
    by (simp add: fixed_pinecone_def)
  have c: "clears_threshold mistyped_match"
    by (simp add: mistyped_match_def clears_threshold_def SIMILARITY_THRESHOLD_def)
  have m: "map_of (metadataOf mistyped_match) ''stateName'' = Some (JNum 48)"
    "map_of (metadataOf mistyped_match) ''policyTitle'' = None"
    "map_of (metadataOf mistyped_match) ''pageNumber'' = Some (JStr ''7'')"
    "map_of (metadataOf (sample_matches ! 1)) ''pageNumber'' = None"
    "map_of (metadataOf (sample_matches ! 0)) ''pageNumber'' = Some (JNum 3)"
    by (simp_all add: mistyped_match_def metadataOf_def sample_matches_def)
  have n: "js_Number sample_env (JStr ''7'') = Fin 7"
    by (simp add: js_Number_def sample_env_def)
  from toSearchResult_defaults [OF e q] c m n show ?thesis
    by (simp add: js_slice0_def)
qed

text \<open>
  The claim C5 as first stated fails for a mistyped page number: the string "7" becomes
  page 7 and the boolean \<open>false\<close> becomes page 0, not page 1.
\<close>

theorem mistyped_pageNumber_counterexample:
  "clears_threshold mistyped_match
   \<and> typeof (map_of (metadataOf mistyped_match) ''pageNumber'') \<noteq> ''number''
   \<and> pageNumber (toSearchResult sample_env mistyped_match) = Fin 7
   \<and> clears_threshold boolean_page_match
   \<and> typeof (map_of (metadataOf boolean_page_match) ''pageNumber'') \<noteq> ''number''
   \<and> pageNumber (toSearchResult sample_env boolean_page_match) = Fin 0
   \<and> Fin 7 \<noteq> Fin 1 \<and> Fin 0 \<noteq> Fin 1"
  by (simp add: mistyped_match_def boolean_page_match_def clears_threshold_def
        SIMILARITY_THRESHOLD_def typeof_def metadataOf_def toSearchResult_def nullish_def
        js_Number_def sample_env_def)

lemma empty_world_fields:
  "policies (empty_world ix) = Map.empty"
  "policyChunks (empty_world ix) = []"
  "policyFacts (empty_world ix) = []"
  "files (empty_world ix) = Map.empty"
  "index (empty_world ix) = ix"
  "now (empty_world ix) = 0"
  "trace (empty_world ix) = []"
  by (simp_all add: empty_world_def)

lemma sample_env_chat:
  "generateChatCompletion sample_env messages opts = Inr ''Live video is covered [1].''"
  by (simp add: sample_env_def)

lemma rescaled_average_ge_1: "5 / 6 \<le> (x::real) \<Longrightarrow> 1 \<le> x * (12 / 10)"
  by linarith

lemma foldl_similarity_sum:
  "foldl (\<lambda>sum r. sum + similarity r) a rs = a + sum_list (map similarity rs)"
  by (induction rs arbitrary: a) simp_all

lemma hybridSearch_trace_no_chat:
  assumes "hybridSearch pc env query stateFilter topK w = (Inr results, w')"
  shows "\<exists>evs. trace w' = trace w @ evs
           \<and> (\<forall>messages opts. ChatCompletionCall messages opts \<notin> set evs)"
proof -
  from hybridSearch_Inr [OF assms] obtain emb where
    "w' = w\<lparr>trace := trace w @
             [EmbeddingCall query, IndexQuery (searchRequest emb stateFilter topK)]\<rparr>"
    by blast
  then have "trace w' = trace w @
      [EmbeddingCall query, IndexQuery (searchRequest emb stateFilter topK)]"
    by simp
  moreover have "\<forall>messages opts. ChatCompletionCall messages opts \<notin>
      set [EmbeddingCall query, IndexQuery (searchRequest emb stateFilter topK)]"
    by simp
  ultimately show ?thesis by blast
qed

text \<open>
  C3: when the search behind \<open>ragQuery\<close> returns the empty list, \<open>ragQuery\<close> returns
  the canned answer with confidence 0, no citations and the three suggested queries, and
  leaves the world as the search left it: the trace of the run holds no call of the
  text-generation collaborator.
\<close>

theorem ragQuery_no_hits:
  assumes "hybridSearch pc env query stateFilter TOP_K_RESULTS w = (Inr [], w1)"
  shows "ragQuery pc env query stateFilter history w =
           (Inr \<lparr>answer = noInformationAnswer, confidence = 0, citations = [],
                 suggestedQueries = Some
                   [''What are the live video requirements?'',
                    ''Does this state allow store-and-forward?'',
                    ''What are the consent requirements?'']\<rparr>,
            w1)
       \<and> (\<exists>evs. trace w1 = trace w @ evs
             \<and> (\<forall>messages opts. ChatCompletionCall messages opts \<notin> set evs))"
proof -
  have "ragQuery pc env query stateFilter history w =
           (Inr \<lparr>answer = noInformationAnswer, confidence = 0, citations = [],
                 suggestedQueries = Some
                   [''What are the live video requirements?'',
                    ''Does this state allow store-and-forward?'',
                    ''What are the consent requirements?'']\<rparr>,
            w1)"
    using assms by (simp add: ragQuery_def tryCatch_def andThen_def ret_def)
  with hybridSearch_trace_no_chat [OF assms] show ?thesis by blast
qed

theorem ragQuery_no_hits_witness:
  "fst (ragQuery (fixed_pinecone low_score_matches) sample_env ''parity'' None [] (empty_world ()))
     = Inr \<lparr>answer = noInformationAnswer, confidence = 0, citations = [],
            suggestedQueries = Some
              [''What are the live video requirements?'',
               ''Does this state allow store-and-forward?'',
               ''What are the consent requirements?'']\<rparr>
   \<and> trace (snd (ragQuery (fixed_pinecone low_score_matches) sample_env ''parity'' None []
                     (empty_world ()))) =
       [EmbeddingCall ''parity'', IndexQuery (searchRequest [1, 0, 0] None 5)]"
proof -
  have r: "rankedResults sample_env \<lparr>matches = Some low_score_matches\<rparr> 5 = []"
    by (simp add: rankedResults_def low_score_matches_def clears_threshold_def
          SIMILARITY_THRESHOLD_def js_slice0_def)
  have "hybridSearch (fixed_pinecone low_score_matches) sample_env ''parity'' None 5
          (empty_world ()) =
        (Inr (rankedResults sample_env \<lparr>matches = Some low_score_matches\<rparr> 5),
         (empty_world ())\<lparr>trace := trace (empty_world ()) @
            [EmbeddingCall ''parity'', IndexQuery (searchRequest [1, 0, 0] None 5)]\<rparr>)"
    by (rule hybridSearch_succeeds) (simp_all add: sample_env_def fixed_pinecone_def)
  then have h: "hybridSearch (fixed_pinecone low_score_matches) sample_env ''parity'' None
          TOP_K_RESULTS (empty_world ()) =
        (Inr [],
         (empty_world ())\<lparr>trace := trace (empty_world ()) @
            [EmbeddingCall ''parity'', IndexQuery (searchRequest [1, 0, 0] None 5)]\<rparr>)"
    by (simp add: r TOP_K_RESULTS_def)
  from ragQuery_no_hits [OF h, of "[]"] show ?thesis
    by (simp add: empty_world_def)
qed

lemma ragQuery_Inr_confidence:
  assumes "hybridSearch pc env query stateFilter TOP_K_RESULTS w = (Inr results, w1)"
    and "results \<noteq> []"
    and "fst (ragQuery pc env query stateFilter history w) = Inr response"
  shows "confidence response =
           min (foldl (\<lambda>sum r. sum + similarity r) 0 results / real (length results) * (12 / 10)) 1"
  using assms
  by (auto simp: ragQuery_def tryCatch_def andThen_def ret_def throw_def emit_def Let_def
        prisma_policyChunk_findMany_def generateChatCompletion_call_def pure_call_def
      split: sum.splits prod.splits if_splits)

text \<open>
  C4: when the search behind \<open>ragQuery\<close> returns a non-empty list and \<open>ragQuery\<close>
  returns a response, its confidence is the minimum of 1 and 1.2 times the average
  similarity of the retained results; so it never exceeds 1, and it is exactly 1 as soon as
  the average reaches 5/6.
\<close>

theorem ragQuery_confidence:
  assumes "hybridSearch pc env query stateFilter TOP_K_RESULTS w = (Inr results, w1)"
    and "results \<noteq> []"
    and "fst (ragQuery pc env query stateFilter history w) = Inr response"
  shows "confidence response =
           min (sum_list (map similarity results) / real (length results) * (12 / 10)) 1
       \<and> confidence response \<le> 1
       \<and> (5 / 6 \<le> sum_list (map similarity results) / real (length results) \<longrightarrow>
            confidence response = 1)"
proof -
  let ?avg = "sum_list (map similarity results) / real (length results)"
  have c: "confidence response = min (?avg * (12 / 10)) 1"
    using ragQuery_Inr_confidence [OF assms] by (simp add: foldl_similarity_sum)
  then have "confidence response \<le> 1" by simp
  moreover have "5 / 6 \<le> ?avg \<longrightarrow> confidence response = 1"
  proof
    assume "5 / 6 \<le> ?avg"
    then have "1 \<le> ?avg * (12 / 10)" by (rule rescaled_average_ge_1)
    with c show "confidence response = 1" by (simp add: min_def)
  qed
  ultimately show ?thesis using c by blast
qed

theorem ragQuery_confidence_witness:
  "fst (ragQuery (fixed_pinecone sample_matches) sample_env ''live video'' None []
          (empty_world ())) = Inr sample_answer
   \<and> [sample_result_a, sample_result_b] \<noteq> []
   \<and> sum_list (map similarity [sample_result_a, sample_result_b])
        / real (length [sample_result_a, sample_result_b]) = 37 / 40
   \<and> confidence sample_answer = 1"
proof -
  have h: "hybridSearch (fixed_pinecone sample_matches) sample_env ''live video'' None
             TOP_K_RESULTS (empty_world ()) =
           (Inr [sample_result_a, sample_result_b],
            (empty_world ())\<lparr>trace := trace (empty_world ()) @
              [EmbeddingCall ''live video'', IndexQuery (searchRequest [1, 0, 0] None 5)]\<rparr>)"
    by (simp add: sample_search js_slice0_def TOP_K_RESULTS_def)
  have ne: "[sample_result_a, sample_result_b] \<noteq> []" by simp
  have r: "fst (ragQuery (fixed_pinecone sample_matches) sample_env ''live video'' None []
                  (empty_world ())) = Inr sample_answer"
    by (simp add: ragQuery_def tryCatch_def andThen_def ret_def h Let_def
          prisma_policyChunk_findMany_def generateChatCompletion_call_def pure_call_def
          sample_env_chat sample_answer_def toCitation_def hydratedContent_def
          sample_result_a_def sample_result_b_def empty_world_fields)
  from ragQuery_confidence [OF h ne r] r show ?thesis
    by (simp add: sample_result_a_def sample_result_b_def)
qed

section \<open>Vector index gateway: properties\<close>

text \<open>
  C6: an upsert that contains a vector whose length is not 768 raises the index's
  dimension error to the caller and leaves the index as it was; the gateway hands the
  vectors to the index as they are, neither truncated nor padded, and it passes on whatever
  error an index client raises.
\<close>

theorem upsertVectors_dimension_mismatch:
  assumes "\<exists>v \<in> set vectors. length (v_values v) \<noteq> 768"
  shows "upsertVectors (spec_pinecone metric) vectors w =
           (Inl DimensionMismatch,
            w\<lparr>trace := trace w @
               [IndexUpsert vectors, ConsoleError ''Error upserting vectors to Pinecone:'']\<rparr>)
       \<and> (\<forall>pc err. px_upsert pc (index w) vectors = Inl err \<longrightarrow>
             fst (upsertVectors pc vectors w) = Inl err
           \<and> index (snd (upsertVectors pc vectors w)) = index w)"
proof -
  have "px_upsert (spec_pinecone metric) (index w) vectors = Inl DimensionMismatch"
    using assms by (auto simp: spec_pinecone_def spec_upsert_def VECTOR_DIMENSIONS_def)
  then have "upsertVectors (spec_pinecone metric) vectors w =
           (Inl DimensionMismatch,
            w\<lparr>trace := trace w @
               [IndexUpsert vectors, ConsoleError ''Error upserting vectors to Pinecone:'']\<rparr>)"
    by (simp add: upsertVectors_def tryCatch_def andThen_def pineconeIndex_upsert_def emit_def
          throw_def)
  moreover have "\<forall>pc err. px_upsert pc (index w) vectors = Inl err \<longrightarrow>
             fst (upsertVectors pc vectors w) = Inl err
           \<and> index (snd (upsertVectors pc vectors w)) = index w"
    by (simp add: upsertVectors_def tryCatch_def andThen_def pineconeIndex_upsert_def emit_def
          throw_def)
  ultimately show ?thesis by blast
qed

theorem upsertVectors_dimension_mismatch_witness:
  "length (v_values short_entry) \<noteq> 768
   \<and> fst (upsertVectors (spec_pinecone dot) [short_entry] (empty_world sample_index))
       = Inl DimensionMismatch
   \<and> index (snd (upsertVectors (spec_pinecone dot) [short_entry] (empty_world sample_index)))
       = sample_index"
proof -
  have h: "\<exists>v \<in> set [short_entry]. length (v_values v) \<noteq> 768"
    by (simp add: short_entry_def)
  from upsertVectors_dimension_mismatch [OF h, of dot "empty_world sample_index"] show ?thesis
    by (simp add: short_entry_def empty_world_fields)
qed

lemma queryVectors_spec:
  "queryVectors (spec_pinecone metric) qv k flt w =
     (Inr (map (\<lambda>e. \<lparr>m_id = v_id e, m_score = Some (metric qv (v_values e)),
                     m_metadata = Some (v_metadata e)\<rparr>)
             (take (nat k) (sort_key (\<lambda>e. - metric qv (v_values e))
                (filter (spec_matches flt) (index w))))),
      w\<lparr>trace := trace w @
         [IndexQuery \<lparr>q_vector = qv, q_topK = k, q_includeMetadata = True, q_filter = flt\<rparr>]\<rparr>)"
  by (simp add: queryVectors_def tryCatch_def andThen_def pineconeIndex_query_def ret_def
        spec_pinecone_def spec_query_def)

lemma deletePolicyVectors_spec:
  assumes "length (policyEntries pid (index w)) \<le> 10000"
  shows "deletePolicyVectors (spec_pinecone metric) pid w =
     (Inr (length (policyEntries pid (index w))),
      (if policyEntries pid (index w) = []
       then w\<lparr>trace := trace w @ [IndexQuery (enumerationRequest pid)]\<rparr>
       else w\<lparr>index := filter (\<lambda>e. v_id e \<notin> v_id ` set (policyEntries pid (index w))) (index w),
              trace := trace w @
                [IndexQuery (enumerationRequest pid),
                 IndexDeleteMany
                   (map v_id (sort_key (\<lambda>e. - metric (replicate 768 0) (v_values e))
                      (policyEntries pid (index w))))]\<rparr>))"
proof -
  let ?ranked = "sort_key (\<lambda>e. - metric (replicate 768 0) (v_values e))
                   (policyEntries pid (index w))"
  have t: "take (nat 10000) ?ranked = ?ranked"
    using assms by simp
  show ?thesis
    unfolding deletePolicyVectors_def tryCatch_def andThen_def pineconeIndex_query_def
      pineconeIndex_deleteMany_def ret_def spec_pinecone_def spec_query_def spec_deleteMany_def
      dummyVector_def
    using t
    by (auto simp: policyEntries_def policyFilter_def enumerationRequest_def)
qed

lemma policyEntries_after_delete:
  "policyEntries pid (filter (\<lambda>e. v_id e \<notin> v_id ` set (policyEntries pid ix)) ix) = []"
  by (auto simp: policyEntries_def filter_empty_conv)

lemma sample_policyEntries:
  "policyEntries ''p1'' sample_index = [sample_index ! 0, sample_index ! 2]"
  by (simp add: policyEntries_def policyFilter_def sample_index_def spec_matches_def)

text \<open>
  C7: \<open>deletePolicyVectors\<close> sends one query with the all-zero vector of length 768, the
  policy filter, \<open>topK\<close> 10000 and no metadata, and then deletes the ids that query
  returned. When the policy has at most 10000 entries, these are the ids of all its
  entries, and every later query with the same policy filter returns no candidate.
\<close>

theorem deletePolicyVectors_then_query_empty:
  assumes "length (policyEntries pid (index w)) \<le> 10000"
  shows "\<exists>n w'. deletePolicyVectors (spec_pinecone metric) pid w = (Inr n, w')
       \<and> n = length (policyEntries pid (index w))
       \<and> (\<exists>ids. set ids = v_id ` set (policyEntries pid (index w))
              \<and> trace w' = trace w @
                   IndexQuery \<lparr>q_vector = replicate 768 0, q_topK = 10000,
                               q_includeMetadata = False,
                               q_filter = Some (FieldEq ''policyId'' pid)\<rparr>
                   # (if n > 0 then [IndexDeleteMany ids] else []))
       \<and> (\<forall>qv k. fst (queryVectors (spec_pinecone metric) qv k
                          (Some (FieldEq ''policyId'' pid)) w') = Inr [])"
proof -
  let ?P = "policyEntries pid (index w)"
  let ?ids = "map v_id (sort_key (\<lambda>e. - metric (replicate 768 0) (v_values e)) ?P)"
  let ?w' = "(if ?P = []
       then w\<lparr>trace := trace w @ [IndexQuery (enumerationRequest pid)]\<rparr>
       else w\<lparr>index := filter (\<lambda>e. v_id e \<notin> v_id ` set ?P) (index w),
              trace := trace w @
                [IndexQuery (enumerationRequest pid), IndexDeleteMany ?ids]\<rparr>)"
  have d: "deletePolicyVectors (spec_pinecone metric) pid w = (Inr (length ?P), ?w')"
    by (rule deletePolicyVectors_spec [OF assms])
  have ids: "set ?ids = v_id ` set ?P" by simp
  have tr: "trace ?w' = trace w @ IndexQuery (enumerationRequest pid)
              # (if length ?P > 0 then [IndexDeleteMany ?ids] else [])"
    by simp
  have gone: "policyEntries pid (index ?w') = []"
    by (simp add: policyEntries_after_delete)
  have q: "\<forall>qv k. fst (queryVectors (spec_pinecone metric) qv k
                          (Some (FieldEq ''policyId'' pid)) ?w') = Inr []"
  proof (intro allI)
    fix qv k
    from gone have "filter (spec_matches (Some (FieldEq ''policyId'' pid))) (index ?w') = []"
      by (simp add: policyEntries_def policyFilter_def)
    then show "fst (queryVectors (spec_pinecone metric) qv k
                          (Some (FieldEq ''policyId'' pid)) ?w') = Inr []"
      by (simp only: queryVectors_spec fst_conv) simp
  qed
  from d ids tr q show ?thesis
    unfolding enumerationRequest_def by blast
qed

theorem deletePolicyVectors_then_query_empty_witness:
  "length (policyEntries ''p1'' (index (empty_world sample_index))) \<le> 10000
   \<and> fst (deletePolicyVectors (spec_pinecone dot) ''p1'' (empty_world sample_index)) = Inr 2
   \<and> fst (queryVectors (spec_pinecone dot) [1, 0] 5 (Some (FieldEq ''policyId'' ''p1''))
            (snd (deletePolicyVectors (spec_pinecone dot) ''p1'' (empty_world sample_index))))
       = Inr []"
proof -
  have h: "length (policyEntries ''p1'' (index (empty_world sample_index))) \<le> 10000"
    by (simp add: empty_world_fields sample_policyEntries)
  from deletePolicyVectors_then_query_empty [OF h, of dot] obtain n w' where
    d: "deletePolicyVectors (spec_pinecone dot) ''p1'' (empty_world sample_index) = (Inr n, w')"
    and n: "n = length (policyEntries ''p1'' (index (empty_world sample_index)))"
    and q: "\<forall>qv k. fst (queryVectors (spec_pinecone dot) qv k
                          (Some (FieldEq ''policyId'' ''p1'')) w') = Inr []"
    by blast
  from n have "n = 2" by (simp add: empty_world_fields sample_policyEntries)
  with h d q show ?thesis by simp
qed

section \<open>Fact extraction: properties\<close>

lemma get_prop_propOf: "v \<noteq> JNull \<Longrightarrow> get_prop v k = Inr (propOf v k)"
  by (cases v) (simp_all add: get_prop_def propOf_def)

lemma factData_factRow: "fact_obj \<noteq> JNull \<Longrightarrow> factData pid sid fact_obj = Inr (factRow pid sid fact_obj)"
  by (simp add: factData_def bindE_def get_prop_propOf factRow_def)

lemma storeFacts_all:
  assumes "\<forall>f \<in> set fs. f \<noteq> JNull \<and> policyFactAccepted env (factRow pid sid f)"
  shows "storeFacts env pid sid fs w =
           (Inr (), w\<lparr>policyFacts := policyFacts w @ map (factRow pid sid) fs\<rparr>)"
  using assms
proof (induction fs arbitrary: w)
  case Nil
  then show ?case by simp
next
  case (Cons f fs)
  then have f: "f \<noteq> JNull" "policyFactAccepted env (factRow pid sid f)"
    and rest: "\<forall>g \<in> set fs. g \<noteq> JNull \<and> policyFactAccepted env (factRow pid sid g)"
    by simp_all
  have "andThen (lift (factData pid sid f)) (prisma_policyFact_create env) w =
          (Inr (), w\<lparr>policyFacts := policyFacts w @ [factRow pid sid f]\<rparr>)"
    using f by (simp add: andThen_def lift_def factData_factRow prisma_policyFact_create_def)
  then show ?case
    using Cons.IH [OF rest] by simp
qed

lemma extractPolicyFacts_unfold:
  assumes "policies w pid = Some policy"
    and "generateChatCompletion env (extractionMessages policy pid w) extractionOptions = Inr raw"
  shows "extractPolicyFacts env pid w =
     tryCatch
       (andThen (lift (get_prop (fst (parseStep env raw)) ''facts'')) (\<lambda>facts.
        case facts of
          Some (JArr fs) \<Rightarrow> storeFacts env pid (p_stateId policy) fs
        | _ \<Rightarrow> ret ()))
       (\<lambda>err. andThen (emit (ConsoleError ''Error extracting policy facts:'')) (\<lambda>_.
        throw (Error ''Failed to extract policy facts'')))
       (w\<lparr>trace := trace w @
           ChatCompletionCall (extractionMessages policy pid w) extractionOptions
           # snd (parseStep env raw)\<rparr>)"
proof -
  let ?w1 = "w\<lparr>trace := trace w @
               [ChatCompletionCall (extractionMessages policy pid w) extractionOptions]\<rparr>"
  have parse:
    "tryCatch
       (case json_span raw of
          Some jsonMatch \<Rightarrow> lift (JSON_parse env jsonMatch)
        | None \<Rightarrow> ret (JObj []))
       (\<lambda>err. andThen (emit (ConsoleWarn ''Failed to parse extracted facts JSON'')) (\<lambda>_.
        ret (JObj []))) ?w1 =
     (Inr (fst (parseStep env raw)),
      w\<lparr>trace := trace w @
          ChatCompletionCall (extractionMessages policy pid w) extractionOptions
          # snd (parseStep env raw)\<rparr>)"
  proof (cases "json_span raw")
    case None
    then show ?thesis
      by (simp add: tryCatch_def ret_def parseStep_def)
  next
    case (Some jsonMatch)
    then show ?thesis
      by (cases "JSON_parse env jsonMatch")
         (simp_all add: tryCatch_def ret_def parseStep_def lift_def andThen_def emit_def)
  qed
  have chat: "generateChatCompletion_call env (extractionMessages policy pid w)
                extractionOptions w = (Inr raw, ?w1)"
    using assms(2) by (simp add: generateChatCompletion_call_def pure_call_def)
  have chat': "\<And>k. andThen (generateChatCompletion_call env (extractionMessages policy pid w)
                extractionOptions) k w = k raw ?w1"
    using chat by (simp add: andThen_def)
  have parse': "\<And>k. andThen (tryCatch
       (case json_span raw of
          Some jsonMatch \<Rightarrow> lift (JSON_parse env jsonMatch)
        | None \<Rightarrow> ret (JObj []))
       (\<lambda>err. andThen (emit (ConsoleWarn ''Failed to parse extracted facts JSON'')) (\<lambda>_.
        ret (JObj [])))) k ?w1 =
     k (fst (parseStep env raw))
      (w\<lparr>trace := trace w @
          ChatCompletionCall (extractionMessages policy pid w) extractionOptions
          # snd (parseStep env raw)\<rparr>)"
    using parse by (simp add: andThen_def)
  have body: "\<And>k. andThen (prisma_policy_findUnique pid) k w = k (Some policy) w"
    using assms(1) by (simp add: andThen_def prisma_policy_findUnique_def)
  have chunks: "\<And>k. andThen (policy_chunks pid) k w =
      k (filter (\<lambda>c. c_policyId c = pid) (policyChunks w)) w"
    by (simp add: andThen_def policy_chunks_def)
  have msgs: "[\<lparr>role = ''system'', msg_content = extractionSystemPrompt\<rparr>,
      \<lparr>role = ''user'', msg_content =
         ''Extract facts from this '' @ p_stateName policy @ '' policy:\<newline>\<newline>'' @
         take 12000
           (join_with ''\<newline>''
              (map c_content (filter (\<lambda>c. c_policyId c = pid) (policyChunks w))))\<rparr>] =
      extractionMessages policy pid w"
    by (simp only: extractionMessages_def)
  have opts: "\<lparr>temperature = 1 / 10, numPredict = 1024\<rparr> = extractionOptions"
    by (simp only: extractionOptions_def)
  show ?thesis
    unfolding extractPolicyFacts_def
  proof (rule tryCatch_same)
    show "andThen (prisma_policy_findUnique pid) (\<lambda>found.
        case found of
          None \<Rightarrow> throw (Error ''Policy not found'')
        | Some policy \<Rightarrow>
        andThen (policy_chunks pid) (\<lambda>chunks.
        let fullText = join_with ''\<newline>'' (map c_content chunks);
            systemPrompt = extractionSystemPrompt in
        andThen
          (generateChatCompletion_call env
             [\<lparr>role = ''system'', msg_content = systemPrompt\<rparr>,
              \<lparr>role = ''user'', msg_content =
                 ''Extract facts from this '' @ p_stateName policy @ '' policy:\<newline>\<newline>'' @
                 take 12000 fullText\<rparr>]
             \<lparr>temperature = 1 / 10, numPredict = 1024\<rparr>)
          (\<lambda>extractionRaw.
        andThen
          (tryCatch
             (case json_span extractionRaw of
                Some jsonMatch \<Rightarrow> lift (JSON_parse env jsonMatch)
              | None \<Rightarrow> ret (JObj []))
             (\<lambda>err. andThen (emit (ConsoleWarn ''Failed to parse extracted facts JSON'')) (\<lambda>_.
              ret (JObj []))))
          (\<lambda>result.
        andThen (lift (get_prop result ''facts'')) (\<lambda>facts.
        case facts of
          Some (JArr fs) \<Rightarrow> storeFacts env pid (p_stateId policy) fs
        | _ \<Rightarrow> ret ()))))) w =
      andThen (lift (get_prop (fst (parseStep env raw)) ''facts'')) (\<lambda>facts.
        case facts of
          Some (JArr fs) \<Rightarrow> storeFacts env pid (p_stateId policy) fs
        | _ \<Rightarrow> ret ())
       (w\<lparr>trace := trace w @
           ChatCompletionCall (extractionMessages policy pid w) extractionOptions
           # snd (parseStep env raw)\<rparr>)"
      by (simp only: body option.case chunks Let_def msgs opts chat' parse')
  qed
qed

lemma facts_env_fields:
  "generateChatCompletion (facts_env reply) messages opts = Inr reply"
  "JSON_parse (facts_env reply) s = (if s = facts_json_text then Inr facts_json else Inl SyntaxError)"
  "policyFactAccepted (facts_env reply) d"
  by (simp_all add: facts_env_def sample_env_def)

lemma sample_world_fields:
  "policies sample_world ''p1'' = Some sample_policy"
  "policyFacts sample_world = []"
  "trace sample_world = []"
  "now sample_world = 1700"
  by (simp_all add: sample_world_def)

lemma span_without: "json_span reply_without_span = None"
  by (simp add: json_span_def reply_without_span_def)

lemma span_unparsable: "json_span reply_unparsable = Some ''{category: modality}''"
  by (simp add: json_span_def reply_unparsable_def)

lemma span_with_facts: "json_span reply_with_facts = Some facts_json_text"
  by (simp add: json_span_def reply_with_facts_def facts_json_text_def)

lemma unparsable_not_facts: "''{category: modality}'' \<noteq> facts_json_text"
  by (simp add: facts_json_text_def)

lemma sample_fact_rows:
  "map (factRow ''p1'' ''tx'') sample_facts =
     [\<lparr>pf_policyId = ''p1'', pf_stateId = ''tx'', pf_category = Some (JStr ''modality''),
       pf_field = Some (JStr ''rpm''), pf_value = Some (JStr ''Not covered''),
       pf_confidence = JNum (1 / 2), pf_pageNumber = Some (JNum 2)\<rparr>,
      \<lparr>pf_policyId = ''p1'', pf_stateId = ''tx'', pf_category = Some (JStr ''consent''),
       pf_field = Some (JStr ''verbal''), pf_value = Some (JStr ''Required''),
       pf_confidence = JNum (1 / 2), pf_pageNumber = None\<rparr>]"
  by (simp add: sample_facts_def factRow_def propOf_def confidenceOrDefault_def truthy_def)

text \<open>
  C9 (as amended): when the policy exists and the model replies, and the reply holds no
  \<open>{...}\<close> span or its span does not parse, \<open>extractPolicyFacts\<close> returns normally and
  adds no PolicyFact row. A span that does not parse is logged as a warning; a reply
  without a span is not logged at all. In both cases the job goes on: the steps that follow
  in the worker, stamping the time and setting the status to completed, run and succeed.
\<close>

theorem extractPolicyFacts_unparsable:
  assumes "policies w pid = Some policy"
    and "generateChatCompletion env (extractionMessages policy pid w) extractionOptions = Inr raw"
    and "json_span raw = None
         \<or> (\<exists>jsonText err. json_span raw = Some jsonText \<and> JSON_parse env jsonText = Inl err)"
  shows "extractPolicyFacts env pid w =
           (Inr (),
            w\<lparr>trace := trace w @
               ChatCompletionCall (extractionMessages policy pid w) extractionOptions
               # (if json_span raw = None then []
                  else [ConsoleWarn ''Failed to parse extracted facts JSON''])\<rparr>)
       \<and> policyFacts (snd (extractPolicyFacts env pid w)) = policyFacts w
       \<and> fst (andThen (extractPolicyFacts env pid) (\<lambda>_.
               andThen new_Date (\<lambda>t.
               prisma_policy_update pid
                 (\<lambda>p. p\<lparr>p_status := Completed, p_processedAt := Some t\<rparr>))) w) = Inr ()
       \<and> policies (snd (andThen (extractPolicyFacts env pid) (\<lambda>_.
               andThen new_Date (\<lambda>t.
               prisma_policy_update pid
                 (\<lambda>p. p\<lparr>p_status := Completed, p_processedAt := Some t\<rparr>))) w)) pid
           = Some (policy\<lparr>p_status := Completed, p_processedAt := Some (now w)\<rparr>)"
proof -
  have p: "parseStep env raw =
      (JObj [], if json_span raw = None then []
                else [ConsoleWarn ''Failed to parse extracted facts JSON''])"
    using assms(3) by (auto simp: parseStep_def)
  have e: "extractPolicyFacts env pid w =
           (Inr (),
            w\<lparr>trace := trace w @
               ChatCompletionCall (extractionMessages policy pid w) extractionOptions
               # (if json_span raw = None then []
                  else [ConsoleWarn ''Failed to parse extracted facts JSON''])\<rparr>)"
    by (simp add: extractPolicyFacts_unfold [OF assms(1,2)] p tryCatch_def andThen_def lift_def
          get_prop_def ret_def)
  show ?thesis
    using assms(1)
    by (simp add: e andThen_def new_Date_def prisma_policy_update_def)
qed

theorem extractPolicyFacts_unparsable_witness:
  "json_span reply_unparsable = Some ''{category: modality}''
   \<and> JSON_parse (facts_env reply_unparsable) ''{category: modality}'' = Inl SyntaxError
   \<and> fst (extractPolicyFacts (facts_env reply_unparsable) ''p1'' sample_world) = Inr ()
   \<and> policyFacts (snd (extractPolicyFacts (facts_env reply_unparsable) ''p1'' sample_world)) = []
   \<and> trace (snd (extractPolicyFacts (facts_env reply_unparsable) ''p1'' sample_world)) =
       [ChatCompletionCall (extractionMessages sample_policy ''p1'' sample_world) extractionOptions,
        ConsoleWarn ''Failed to parse extracted facts JSON'']"
proof -
  have a: "policies sample_world ''p1'' = Some sample_policy"
    by (rule sample_world_fields)
  have b: "generateChatCompletion (facts_env reply_unparsable)
             (extractionMessages sample_policy ''p1'' sample_world) extractionOptions
           = Inr reply_unparsable"
    by (rule facts_env_fields)
  have c: "JSON_parse (facts_env reply_unparsable) ''{category: modality}'' = Inl SyntaxError"
    using unparsable_not_facts by (simp add: facts_env_fields)
  have d: "json_span reply_unparsable = None
         \<or> (\<exists>jsonText err. json_span reply_unparsable = Some jsonText
               \<and> JSON_parse (facts_env reply_unparsable) jsonText = Inl err)"
    using span_unparsable c by blast
  from extractPolicyFacts_unparsable [OF a b d] span_unparsable c show ?thesis
    by (simp add: sample_world_fields)
qed

text \<open>
  The claim C9 as first stated has the failure logged as a warning in both cases. For a
  reply without any brace nothing is logged: the trace of the run holds the generation call
  only.
\<close>

theorem no_span_no_warning_counterexample:
  "json_span reply_without_span = None
   \<and> fst (extractPolicyFacts (facts_env reply_without_span) ''p1'' sample_world) = Inr ()
   \<and> policyFacts (snd (extractPolicyFacts (facts_env reply_without_span) ''p1'' sample_world)) = []
   \<and> trace (snd (extractPolicyFacts (facts_env reply_without_span) ''p1'' sample_world)) =
       [ChatCompletionCall (extractionMessages sample_policy ''p1'' sample_world) extractionOptions]
   \<and> ConsoleWarn ''Failed to parse extracted facts JSON'' \<notin>
       set (trace (snd (extractPolicyFacts (facts_env reply_without_span) ''p1'' sample_world)))"
proof -
  have a: "policies sample_world ''p1'' = Some sample_policy"
    by (rule sample_world_fields)
  have b: "generateChatCompletion (facts_env reply_without_span)
             (extractionMessages sample_policy ''p1'' sample_world) extractionOptions
           = Inr reply_without_span"
    by (rule facts_env_fields)
  have p: "parseStep (facts_env reply_without_span) reply_without_span = (JObj [], [])"
    by (simp add: parseStep_def span_without)
  show ?thesis
    by (simp add: extractPolicyFacts_unfold [OF a b] p tryCatch_def andThen_def lift_def
          get_prop_def ret_def span_without sample_world_fields)
qed

text \<open>
  C10: when the reply parses to an object with a \<open>facts\<close> array whose elements are not
  \<open>null\<close> and are accepted by the store, every fact is persisted as one row, in order,
  and every fact whose \<open>confidence\<close> is present but falsy (0, \<open>null\<close>, the empty
  string, \<open>false\<close>) is persisted with confidence 0.5, not with the value it states.
\<close>

theorem falsy_confidence_defaults:
  assumes "policies w pid = Some policy"
    and "generateChatCompletion env (extractionMessages policy pid w) extractionOptions = Inr raw"
    and "json_span raw = Some jsonText"
    and "JSON_parse env jsonText = Inr (JObj kvs)"
    and "map_of kvs ''facts'' = Some (JArr fs)"
    and "\<forall>f \<in> set fs. f \<noteq> JNull \<and> policyFactAccepted env (factRow pid (p_stateId policy) f)"
  shows "fst (extractPolicyFacts env pid w) = Inr ()
       \<and> policyFacts (snd (extractPolicyFacts env pid w)) =
           policyFacts w @ map (factRow pid (p_stateId policy)) fs
       \<and> (\<forall>i < length fs.
             propOf (fs ! i) ''confidence'' = Some (JNum 0)
             \<or> propOf (fs ! i) ''confidence'' = Some JNull
             \<or> propOf (fs ! i) ''confidence'' = Some (JStr [])
             \<or> propOf (fs ! i) ''confidence'' = Some (JBool False) \<longrightarrow>
             pf_confidence (policyFacts (snd (extractPolicyFacts env pid w))
                              ! (length (policyFacts w) + i)) = JNum (1 / 2))"
proof -
  have p: "parseStep env raw = (JObj kvs, [])"
    using assms(3,4) by (simp add: parseStep_def)
  have e: "extractPolicyFacts env pid w =
     (Inr (),
      w\<lparr>trace := trace w @
           [ChatCompletionCall (extractionMessages policy pid w) extractionOptions],
        policyFacts := policyFacts w @ map (factRow pid (p_stateId policy)) fs\<rparr>)"
    by (simp add: extractPolicyFacts_unfold [OF assms(1,2)] p tryCatch_def andThen_def lift_def
          get_prop_def assms(5) storeFacts_all [OF assms(6)])
  have "\<forall>i < length fs.
             propOf (fs ! i) ''confidence'' = Some (JNum 0)
             \<or> propOf (fs ! i) ''confidence'' = Some JNull
             \<or> propOf (fs ! i) ''confidence'' = Some (JStr [])
             \<or> propOf (fs ! i) ''confidence'' = Some (JBool False) \<longrightarrow>
             pf_confidence ((policyFacts w @ map (factRow pid (p_stateId policy)) fs)
                              ! (length (policyFacts w) + i)) = JNum (1 / 2)"
    by (auto simp: factRow_def confidenceOrDefault_def truthy_def)
  with e show ?thesis by simp
qed

theorem falsy_confidence_defaults_witness:
  "propOf (sample_facts ! 0) ''confidence'' = Some (JNum 0)
   \<and> propOf (sample_facts ! 1) ''confidence'' = Some JNull
   \<and> fst (extractPolicyFacts (facts_env reply_with_facts) ''p1'' sample_world) = Inr ()
   \<and> map pf_confidence
        (policyFacts (snd (extractPolicyFacts (facts_env reply_with_facts) ''p1'' sample_world)))
       = [JNum (1 / 2), JNum (1 / 2)]"
proof -
  have a: "policies sample_world ''p1'' = Some sample_policy"
    by (rule sample_world_fields)
  have b: "generateChatCompletion (facts_env reply_with_facts)
             (extractionMessages sample_policy ''p1'' sample_world) extractionOptions
           = Inr reply_with_facts"
    by (rule facts_env_fields)
  have c: "JSON_parse (facts_env reply_with_facts) facts_json_text
           = Inr (JObj [(''facts'', JArr sample_facts)])"
    by (simp add: facts_env_fields facts_json_def)
  have d: "map_of [(''facts'', JArr sample_facts)] ''facts'' = Some (JArr sample_facts)"
    by simp
  have e: "\<forall>f \<in> set sample_facts. f \<noteq> JNull
             \<and> policyFactAccepted (facts_env reply_with_facts)
                  (factRow ''p1'' (p_stateId sample_policy) f)"
    by (simp add: facts_env_fields sample_facts_def)
  have f: "propOf (sample_facts ! 0) ''confidence'' = Some (JNum 0)"
    "propOf (sample_facts ! 1) ''confidence'' = Some JNull"
    by (simp_all add: sample_facts_def propOf_def)
  have s: "p_stateId sample_policy = ''tx''"
    by (simp add: sample_policy_def)
  from falsy_confidence_defaults [OF a b span_with_facts c d e] f show ?thesis
    by (simp add: sample_world_fields s sample_fact_rows)
qed

section \<open>Ingestion queue: properties\<close>

lemma jobFinally_unlinks:
  assumes "job_deleteFileAfter job = Some True" and "job_filePath job = Some path" and "path \<noteq> []"
  shows "jobFinally job w =
           (Inr (), w\<lparr>files := (files w)(path := None),
                       trace := trace w @ tempFileEvents path w\<rparr>)"
proof (cases "files w path")
  case None
  then have "(files w)(path := None) = files w" by (simp add: fun_upd_idem)
  with None assms show ?thesis
    by (simp add: jobFinally_def truthy_str_def tryCatch_def fs_unlink_def emit_def
          tempFileEvents_def)
next
  case (Some bytes)
  with assms show ?thesis
    by (simp add: jobFinally_def truthy_str_def tryCatch_def fs_unlink_def emit_def
          tempFileEvents_def)
qed

lemma jobCatch_outcome:
  "fst (jobCatch job err w) = Inr () \<or> fst (jobCatch job err w) = Inl RecordNotFound"
  by (simp add: jobCatch_def andThen_def emit_def prisma_policy_update_def split: option.splits)

lemma job_outcome:
  "fst (tryCatch (jobTry env job) (jobCatch job) w) = Inr ()
   \<or> fst (tryCatch (jobTry env job) (jobCatch job) w) = Inl RecordNotFound"
proof (cases "jobTry env job w")
  case (Pair r w1)
  show ?thesis
  proof (cases r)
    case (Inl e)
    with Pair show ?thesis using jobCatch_outcome [of job e w1]
      by (simp add: tryCatch_def)
  next
    case (Inr u)
    with Pair show ?thesis by (simp add: tryCatch_def)
  qed
qed

text \<open>
  C8: for a job with the delete-after flag set and a non-empty file path, the worker
  attempts the unlink after the \<open>try\<close> and \<open>catch\<close> blocks whatever their outcome, the
  file is gone afterwards, and the job ends exactly as those blocks ended: when the unlink
  fails, a warning is logged and no error of the unlink leaves the job.
\<close>

theorem processJob_unlinks_temp_file:
  assumes "job_deleteFileAfter job = Some True" and "job_filePath job = Some path" and "path \<noteq> []"
  shows "processJob env job w =
           (fst (tryCatch (jobTry env job) (jobCatch job) w),
            (snd (tryCatch (jobTry env job) (jobCatch job) w))
              \<lparr>files := (files (snd (tryCatch (jobTry env job) (jobCatch job) w)))(path := None),
               trace := trace (snd (tryCatch (jobTry env job) (jobCatch job) w)) @
                 Unlink path #
                 (if files (snd (tryCatch (jobTry env job) (jobCatch job) w)) path = None
                  then [ConsoleWarn ''Failed to delete temp file''] else [])\<rparr>)
       \<and> files (snd (processJob env job w)) path = None
       \<and> fst (processJob env job w) \<noteq> Inl ENOENT"
proof -
  obtain r w1 where p: "tryCatch (jobTry env job) (jobCatch job) w = (r, w1)"
    by (cases "tryCatch (jobTry env job) (jobCatch job) w")
  have "processJob env job w =
          (r, w1\<lparr>files := (files w1)(path := None), trace := trace w1 @ tempFileEvents path w1\<rparr>)"
    by (simp add: processJob_def tryFinally_def p jobFinally_unlinks [OF assms])
  moreover have "r \<noteq> Inl ENOENT"
    using job_outcome [of env job w] p by auto
  ultimately show ?thesis
    by (simp add: p tempFileEvents_def)
qed

lemma jobTry_missing_policy:
  assumes "policies w (job_policyId job) = None"
  shows "tryCatch (jobTry env job) (jobCatch job) w =
           (Inl RecordNotFound, w\<lparr>trace := trace w @ [ConsoleError ''Failed processing policy'']\<rparr>)"
  using assms
  by (simp add: tryCatch_def jobTry_def jobCatch_def andThen_def prisma_policy_findUnique_def
        throw_def emit_def prisma_policy_update_def)

lemma extractPolicyFacts_parsed:
  assumes "policies w pid = Some policy"
    and "generateChatCompletion env (extractionMessages policy pid w) extractionOptions = Inr raw"
    and "json_span raw = Some jsonText"
    and "JSON_parse env jsonText = Inr (JObj kvs)"
    and "map_of kvs ''facts'' = Some (JArr fs)"
    and "\<forall>f \<in> set fs. f \<noteq> JNull \<and> policyFactAccepted env (factRow pid (p_stateId policy) f)"
  shows "extractPolicyFacts env pid w =
     (Inr (),
      w\<lparr>trace := trace w @
           [ChatCompletionCall (extractionMessages policy pid w) extractionOptions],
        policyFacts := policyFacts w @ map (factRow pid (p_stateId policy)) fs\<rparr>)"
proof -
  have p: "parseStep env raw = (JObj kvs, [])"
    using assms(3,4) by (simp add: parseStep_def)
  show ?thesis
    by (simp add: extractPolicyFacts_unfold [OF assms(1,2)] p tryCatch_def andThen_def lift_def
          get_prop_def assms(5) storeFacts_all [OF assms(6)])
qed

lemma createMany_fields:
  "policies (snd (prisma_policyChunk_createMany env pid chunks w)) = policies w"
  "files (snd (prisma_policyChunk_createMany env pid chunks w)) = files w"
  "now (snd (prisma_policyChunk_createMany env pid chunks w)) = now w"
  "policyFacts (snd (prisma_policyChunk_createMany env pid chunks w)) = policyFacts w"
  by (simp_all add: prisma_policyChunk_createMany_def)

lemma jobTry_completes:
  assumes "policies w (job_policyId job) = Some policy"
    and "resolveBuffer job w = (Inr buffer, w)"
    and "processAndStorePDF env buffer (job_policyId job) (p_stateId policy)
           (p_stateName policy) (p_title policy) = Inr processed"
    and "extractPolicyFacts env (job_policyId job)
           (snd (prisma_policyChunk_createMany env (job_policyId job) processed w)) = (Inr (), w3)"
    and "policies w3 (job_policyId job) = Some policy"
  shows "jobTry env job w =
           (Inr (), w3\<lparr>policies := (policies w3)(job_policyId job \<mapsto>
                          policy\<lparr>p_status := Completed, p_processedAt := Some (now w3)\<rparr>)\<rparr>)"
proof -
  have c: "prisma_policyChunk_createMany env (job_policyId job) processed w =
      (Inr (), snd (prisma_policyChunk_createMany env (job_policyId job) processed w))"
    by (simp add: prisma_policyChunk_createMany_def)
  show ?thesis
    unfolding jobTry_def
    apply (subst andThen_Inr [where x = "Some policy" and w' = w])
     apply (simp add: prisma_policy_findUnique_def assms(1))
    apply (simp only: option.case)
    apply (subst andThen_Inr [where m = "resolveBuffer job" and w = w, OF assms(2)])
    apply (subst andThen_Inr [where x = processed and w' = w])
     apply (simp add: lift_def assms(3))
    apply (subst andThen_Inr
        [where m = "prisma_policyChunk_createMany env (job_policyId job) processed" and w = w,
         OF c])
    apply (subst andThen_Inr
        [where m = "extractPolicyFacts env (job_policyId job)"
           and w = "snd (prisma_policyChunk_createMany env (job_policyId job) processed w)",
         OF assms(4)])
    apply (simp add: andThen_def new_Date_def prisma_policy_update_def assms(5))
    done
qed

lemma keeps_ret: "keeps h (ret x)"
  by (simp add: keeps_def ret_def)

lemma keeps_throw: "keeps h (throw e)"
  by (simp add: keeps_def throw_def)

lemma keeps_lift: "keeps h (lift r)"
  by (simp add: keeps_def lift_def)

lemma keeps_emit: "keeps h (emit ev)"
  by (simp add: keeps_def emit_def)

lemma keeps_pure_call: "keeps h (pure_call ev r)"
  by (simp add: keeps_def pure_call_def)

lemma keeps_andThen: "keeps h m \<Longrightarrow> (\<And>x. keeps h (f x)) \<Longrightarrow> keeps h (andThen m f)"
  unfolding keeps_def andThen_def
  by (auto split: prod.splits sum.splits) (metis snd_conv)+

lemma keeps_tryCatch: "keeps h m \<Longrightarrow> (\<And>e. keeps h (f e)) \<Longrightarrow> keeps h (tryCatch m f)"
  unfolding keeps_def tryCatch_def
  by (auto split: prod.splits sum.splits) (metis snd_conv)+

lemma keeps_tryFinally: "keeps h m \<Longrightarrow> keeps h f \<Longrightarrow> keeps h (tryFinally m f)"
  unfolding keeps_def tryFinally_def
  by (auto split: prod.splits sum.splits) (metis snd_conv)+

lemma keeps_case_option:
  "keeps h a \<Longrightarrow> (\<And>x. keeps h (b x)) \<Longrightarrow> keeps h (case v of None \<Rightarrow> a | Some x \<Rightarrow> b x)"
  by (cases v) simp_all

lemma keeps_if: "keeps h a \<Longrightarrow> keeps h b \<Longrightarrow> keeps h (if c then a else b)"
  by simp

lemma keeps_findUnique: "keeps h (prisma_policy_findUnique pid)"
  by (simp add: keeps_def prisma_policy_findUnique_def)

lemma keeps_policy_chunks: "keeps h (policy_chunks pid)"
  by (simp add: keeps_def policy_chunks_def)

lemma keeps_create: "keeps h (prisma_policyFact_create env d)"
  by (simp add: keeps_def prisma_policyFact_create_def)

lemma keeps_createMany: "keeps h (prisma_policyChunk_createMany env pid chunks)"
  by (simp add: keeps_def prisma_policyChunk_createMany_def)

lemma keeps_readFile: "keeps h (fs_readFile path)"
  by (simp add: keeps_def fs_readFile_def split: option.splits)

lemma keeps_unlink: "keeps h (fs_unlink path)"
  by (simp add: keeps_def fs_unlink_def split: option.splits)

lemma keeps_new_Date: "keeps h new_Date"
  by (simp add: keeps_def new_Date_def)

lemma keeps_chat: "keeps h (generateChatCompletion_call env messages opts)"
  by (simp add: generateChatCompletion_call_def keeps_pure_call)

lemma keeps_update_dom: "keeps dom (prisma_policy_update pid f)"
  by (auto simp: keeps_def prisma_policy_update_def split: option.splits)

lemma keeps_update_other: "q \<noteq> pid \<Longrightarrow> keeps (\<lambda>m. m q) (prisma_policy_update pid f)"
  by (auto simp: keeps_def prisma_policy_update_def split: option.splits)

lemma keeps_storeFacts: "keeps h (storeFacts env pid sid fs :: (unit, 'ix) io)"
  unfolding keeps_def
proof (induction fs)
  case Nil
  show ?case by simp
next
  case (Cons f fs)
  have k: "keeps h (andThen (lift (factData pid sid f)) (prisma_policyFact_create env)
                     :: (unit, 'ix) io)"
    by (intro keeps_andThen keeps_lift keeps_create)
  show ?case
  proof
    fix w :: "'ix world"
    obtain r w1 where s: "andThen (lift (factData pid sid f)) (prisma_policyFact_create env) w = (r, w1)"
      by (cases "andThen (lift (factData pid sid f)) (prisma_policyFact_create env) w")
    with k have p: "h (policies w1) = h (policies w)"
      unfolding keeps_def by (metis snd_conv)
    show "h (policies (snd (storeFacts env pid sid (f # fs) w))) = h (policies w)"
    proof (cases r)
      case (Inl e)
      with s p show ?thesis by simp
    next
      case (Inr u)
      with s have e: "storeFacts env pid sid (f # fs) w = storeFacts env pid sid fs w1" by simp
      from Cons.IH have "h (policies (snd (storeFacts env pid sid fs w1))) = h (policies w1)"
        by (rule spec)
      then show ?thesis by (simp only: e p)
    qed
  qed
qed

lemma keeps_extractPolicyFacts: "keeps h (extractPolicyFacts env pid)"
  unfolding extractPolicyFacts_def Let_def
  by (intro keeps_tryCatch keeps_andThen keeps_findUnique keeps_case_option keeps_throw
        keeps_policy_chunks keeps_chat keeps_lift keeps_ret keeps_emit)
     (auto intro!: keeps_storeFacts keeps_ret split: option.splits json.splits)

lemma keeps_resolveBuffer: "keeps h (resolveBuffer job)"
  unfolding resolveBuffer_def
  by (intro keeps_if keeps_ret keeps_readFile keeps_throw)

lemma keeps_jobFinally: "keeps h (jobFinally job)"
  unfolding jobFinally_def
  by (intro keeps_if keeps_tryCatch keeps_unlink keeps_emit keeps_ret)

lemma keeps_jobTry:
  assumes "\<And>f. keeps h (prisma_policy_update (job_policyId job) f :: (unit, 'ix) io)"
  shows "keeps h (jobTry env job :: (unit, 'ix) io)"
  unfolding jobTry_def
  by (intro keeps_andThen keeps_findUnique keeps_case_option keeps_throw keeps_resolveBuffer
        keeps_lift keeps_createMany keeps_extractPolicyFacts keeps_new_Date assms)

lemma keeps_jobCatch:
  assumes "\<And>f. keeps h (prisma_policy_update (job_policyId job) f :: (unit, 'ix) io)"
  shows "keeps h (jobCatch job err :: (unit, 'ix) io)"
  unfolding jobCatch_def
  by (intro keeps_andThen keeps_emit assms)

lemma keeps_processJob:
  assumes "\<And>f. keeps h (prisma_policy_update (job_policyId job) f :: (unit, 'ix) io)"
  shows "keeps h (processJob env job :: (unit, 'ix) io)"
  unfolding processJob_def
  by (intro keeps_tryFinally keeps_tryCatch keeps_jobTry keeps_jobCatch keeps_jobFinally assms)

lemma processJob_dom: "dom (policies (snd (processJob env job w))) = dom (policies w)"
proof -
  have "keeps dom (processJob env job :: (unit, 'a) io)"
    by (rule keeps_processJob) (rule keeps_update_dom)
  then show ?thesis by (simp add: keeps_def)
qed

lemma processJob_other:
  assumes "q \<noteq> job_policyId job"
  shows "policies (snd (processJob env job w)) q = policies w q"
proof -
  have "keeps (\<lambda>m. m q) (processJob env job :: (unit, 'a) io)"
    by (rule keeps_processJob) (rule keeps_update_other [OF assms])
  then show ?thesis by (simp add: keeps_def)
qed

lemma jobFinally_returns: "fst (jobFinally job w) = Inr ()"
  by (simp add: jobFinally_def tryCatch_def fs_unlink_def emit_def ret_def split: option.splits)

lemma jobTry_Inr_status:
  assumes "jobTry env job w = (Inr u, w1)"
  shows "\<exists>p'. policies w1 (job_policyId job) = Some p' \<and> p_status p' = Completed"
  using assms
  by (auto simp: jobTry_def andThen_def prisma_policy_findUnique_def throw_def lift_def
        new_Date_def prisma_policy_update_def
      split: option.splits prod.splits sum.splits)

lemma jobTry_dom: "dom (policies (snd (jobTry env job w))) = dom (policies w)"
proof -
  have "keeps dom (jobTry env job :: (unit, 'a) io)"
    by (rule keeps_jobTry) (rule keeps_update_dom)
  then show ?thesis by (simp add: keeps_def)
qed

lemma jobFinally_policies: "policies (snd (jobFinally job w)) = policies w"
proof -
  have "keeps (\<lambda>m. m) (jobFinally job :: (unit, 'a) io)"
    by (rule keeps_jobFinally)
  then show ?thesis by (simp add: keeps_def)
qed

lemma processJob_split:
  "tryCatch (jobTry env job) (jobCatch job) w = (r, w1) \<Longrightarrow>
   processJob env job w = (r, snd (jobFinally job w1))"
  using jobFinally_returns [of job w1]
  by (cases "jobFinally job w1") (simp add: processJob_def tryFinally_def)

lemma processJob_policy_present:
  assumes "policies w (job_policyId job) = Some p"
  shows "fst (processJob env job w) = Inr ()
       \<and> (\<exists>p'. policies (snd (processJob env job w)) (job_policyId job) = Some p'
              \<and> (p_status p' = Completed \<or> p_status p' = Failed))"
proof -
  obtain r w1 where t: "jobTry env job w = (r, w1)"
    by (cases "jobTry env job w")
  show ?thesis
  proof (cases r)
    case (Inr u)
    with t have c: "tryCatch (jobTry env job) (jobCatch job) w = (Inr (), w1)"
      by (simp add: tryCatch_def)
    from t Inr obtain p' where "policies w1 (job_policyId job) = Some p'" "p_status p' = Completed"
      using jobTry_Inr_status by blast
    then show ?thesis
      by (simp add: processJob_split [OF c] jobFinally_policies)
  next
    case (Inl e)
    from t have "dom (policies w1) = dom (policies w)"
      using jobTry_dom [of env job w] by simp
    with assms obtain p1 where p1: "policies w1 (job_policyId job) = Some p1"
      by (metis domD domI)
    with t Inl have c: "tryCatch (jobTry env job) (jobCatch job) w =
        (Inr (), w1\<lparr>trace := trace w1 @ [ConsoleError ''Failed processing policy''],
                    policies := (policies w1)(job_policyId job \<mapsto> p1\<lparr>p_status := Failed\<rparr>)\<rparr>)"
      by (simp add: tryCatch_def jobCatch_def andThen_def emit_def prisma_policy_update_def)
    show ?thesis
      by (simp add: processJob_split [OF c] jobFinally_policies)
  qed
qed

lemma drain_all_present:
  assumes "\<forall>job \<in> set jobs. job_policyId job \<in> dom (policies w)"
  shows "fst (drain env jobs w) = Inr () \<and> fst (snd (drain env jobs w)) = []"
  using assms
proof (induction jobs arbitrary: w)
  case Nil
  show ?case by simp
next
  case (Cons job jobs)
  obtain r w1 where p: "processJob env job w = (r, w1)"
    by (cases "processJob env job w")
  from Cons.prems obtain pol where "policies w (job_policyId job) = Some pol"
    by auto
  then have r: "r = Inr ()"
    using processJob_policy_present [of w job pol env] p by simp
  have "dom (policies w1) = dom (policies w)"
    using processJob_dom [of env job w] p by simp
  with Cons.prems have "\<forall>j \<in> set jobs. job_policyId j \<in> dom (policies w1)"
    by simp
  from Cons.IH [OF this] p r show ?case
    by simp
qed

lemma processQueue_all_present:
  assumes "\<not> isProcessing st"
    and "\<forall>job \<in> set (jobQueue st). job_policyId job \<in> dom (policies w)"
  shows "fst (processQueue env st w) = Inr ()
       \<and> fst (snd (processQueue env st w)) = \<lparr>jobQueue = [], isProcessing = False\<rparr>"
proof -
  obtain r rest w1 where d: "drain env (jobQueue st) w = (r, rest, w1)"
    by (cases "drain env (jobQueue st) w") auto
  with drain_all_present [OF assms(2), of env] have "r = Inr ()" "rest = []"
    by simp_all
  with d assms(1) show ?thesis
    by (simp add: processQueue_def)
qed

lemma processJob_missing_policy:
  assumes "policies w (job_policyId job) = None"
  shows "fst (processJob env job w) = Inl RecordNotFound
       \<and> policies (snd (processJob env job w)) = policies w"
proof -
  note c = jobTry_missing_policy [OF assms, of env]
  show ?thesis
    by (simp add: processJob_split [OF c] jobFinally_policies)
qed

lemma processQueue_missing_policy_first:
  assumes "\<not> isProcessing st" and "jobQueue st = job # rest"
    and "policies w (job_policyId job) = None"
  shows "fst (processQueue env st w) = Inl RecordNotFound
       \<and> fst (snd (processQueue env st w)) = \<lparr>jobQueue = rest, isProcessing = True\<rparr>
       \<and> policies (snd (snd (processQueue env st w))) = policies w"
proof -
  obtain r w1 where p: "processJob env job w = (r, w1)"
    by (cases "processJob env job w")
  with processJob_missing_policy [OF assms(3), of env] have "r = Inl RecordNotFound"
    "policies w1 = policies w"
    by simp_all
  with p assms(1,2) show ?thesis
    by (simp add: processQueue_def)
qed

lemma queuePolicyProcessing_while_processing:
  assumes "isProcessing st"
  shows "queuePolicyProcessing env pid buffer filePath deleteFileAfter st w =
           (st\<lparr>jobQueue := jobQueue st @
                [\<lparr>job_policyId = pid, job_buffer = buffer, job_filePath = filePath,
                  job_deleteFileAfter = deleteFileAfter\<rparr>]\<rparr>, w)"
  using assms by (simp add: queuePolicyProcessing_def processQueue_def Let_def)

lemma sample_jobTry:
  assumes "job_policyId job = ''p1''"
    and "resolveBuffer job sample_world = (Inr ''%PDF-1.7'', sample_world)"
  shows "\<exists>w3. jobTry (facts_env reply_with_facts) job sample_world = (Inr (), w3)
       \<and> policies w3 ''p1'' = Some (sample_policy\<lparr>p_status := Completed, p_processedAt := Some 1700\<rparr>)
       \<and> files w3 = files sample_world
       \<and> map pf_confidence (policyFacts w3) = [JNum (1 / 2), JNum (1 / 2)]"
proof -
  let ?env = "facts_env reply_with_facts"
  let ?w2 = "snd (prisma_policyChunk_createMany ?env ''p1''
                [\<lparr>pc_content = ''%PDF-1.7'', pc_pageNumber = 1, pc_chunkIndex = 0\<rparr>] sample_world)"
  note pid = assms(1)
  note w2 = createMany_fields
  have a: "policies sample_world (job_policyId job) = Some sample_policy"
    by (simp add: pid sample_world_fields)
  have c: "processAndStorePDF ?env ''%PDF-1.7'' (job_policyId job) (p_stateId sample_policy)
            (p_stateName sample_policy) (p_title sample_policy) =
           Inr [\<lparr>pc_content = ''%PDF-1.7'', pc_pageNumber = 1, pc_chunkIndex = 0\<rparr>]"
    by (simp add: facts_env_def sample_env_def)
  have e1: "policies ?w2 ''p1'' = Some sample_policy"
    by (simp add: w2 sample_world_fields)
  have e2: "generateChatCompletion ?env (extractionMessages sample_policy ''p1'' ?w2)
              extractionOptions = Inr reply_with_facts"
    by (rule facts_env_fields)
  have e4: "JSON_parse ?env facts_json_text = Inr (JObj [(''facts'', JArr sample_facts)])"
    by (simp add: facts_env_fields facts_json_def)
  have e5: "map_of [(''facts'', JArr sample_facts)] ''facts'' = Some (JArr sample_facts)"
    by simp
  have e6: "\<forall>f \<in> set sample_facts. f \<noteq> JNull
             \<and> policyFactAccepted ?env (factRow ''p1'' (p_stateId sample_policy) f)"
    by (simp add: facts_env_fields sample_facts_def)
  note e = extractPolicyFacts_parsed [OF e1 e2 span_with_facts e4 e5 e6]
  let ?w3 = "?w2\<lparr>trace := trace ?w2 @
           [ChatCompletionCall (extractionMessages sample_policy ''p1'' ?w2) extractionOptions],
        policyFacts := policyFacts ?w2 @ map (factRow ''p1'' (p_stateId sample_policy)) sample_facts\<rparr>"
  have d: "extractPolicyFacts ?env (job_policyId job)
            (snd (prisma_policyChunk_createMany ?env (job_policyId job)
                [\<lparr>pc_content = ''%PDF-1.7'', pc_pageNumber = 1, pc_chunkIndex = 0\<rparr>] sample_world))
           = (Inr (), ?w3)"
    unfolding pid by (rule e)
  have f: "policies ?w3 (job_policyId job) = Some sample_policy"
    by (simp add: pid w2 sample_world_fields)
  have s: "p_stateId sample_policy = ''tx''"
    by (simp add: sample_policy_def)
  from jobTry_completes [OF a assms(2) c d f] show ?thesis
    by (simp add: pid w2 sample_world_fields s sample_fact_rows)
qed

lemma sample_processJob:
  assumes "job_policyId job = ''p1''"
    and "resolveBuffer job sample_world = (Inr ''%PDF-1.7'', sample_world)"
  shows "fst (processJob (facts_env reply_with_facts) job sample_world) = Inr ()
       \<and> policies (snd (processJob (facts_env reply_with_facts) job sample_world)) ''p1'' =
           Some (sample_policy\<lparr>p_status := Completed, p_processedAt := Some 1700\<rparr>)"
proof -
  from sample_jobTry [OF assms] obtain w3 where
    t: "jobTry (facts_env reply_with_facts) job sample_world = (Inr (), w3)"
    and p: "policies w3 ''p1'' =
              Some (sample_policy\<lparr>p_status := Completed, p_processedAt := Some 1700\<rparr>)"
    by blast
  from t have c: "tryCatch (jobTry (facts_env reply_with_facts) job) (jobCatch job) sample_world
                    = (Inr (), w3)"
    by (simp add: tryCatch_def)
  show ?thesis
    by (simp add: processJob_split [OF c] jobFinally_policies p)
qed

lemma resolve_file_job:
  "resolveBuffer file_job sample_world = (Inr ''%PDF-1.7'', sample_world)"
  by (simp add: resolveBuffer_def file_job_def truthy_str_def fs_readFile_def sample_world_def)

lemma resolve_good_job:
  "resolveBuffer good_job sample_world = (Inr ''%PDF-1.7'', sample_world)"
  by (simp add: resolveBuffer_def good_job_def ret_def)

lemma resolve_gone_file_job:
  "resolveBuffer gone_file_job sample_world = (Inr ''%PDF-1.7'', sample_world)"
  by (simp add: resolveBuffer_def gone_file_job_def ret_def)

lemma failing_file_job:
  "tryCatch (jobTry failing_env file_job) (jobCatch file_job) sample_world =
     (Inr (),
      sample_world\<lparr>trace := trace sample_world @ [ConsoleError ''Failed processing policy''],
                   policies := (policies sample_world)(''p1'' \<mapsto> sample_policy\<lparr>p_status := Failed\<rparr>)\<rparr>)"
proof -
  have pid: "job_policyId file_job = ''p1''" by (simp add: file_job_def)
  have t: "jobTry failing_env file_job sample_world =
             (Inl (Upstream ''embedding model unreachable''), sample_world)"
    unfolding jobTry_def
    apply (subst andThen_Inr [where x = "Some sample_policy" and w' = sample_world])
     apply (simp add: prisma_policy_findUnique_def pid sample_world_fields)
    apply (simp only: option.case)
    apply (subst andThen_Inr [where m = "resolveBuffer file_job" and w = sample_world,
            OF resolve_file_job])
    apply (simp add: andThen_def lift_def failing_env_def sample_env_def)
    done
  show ?thesis
    by (simp add: tryCatch_def t jobCatch_def andThen_def emit_def prisma_policy_update_def pid
          sample_world_fields)
qed

text \<open>
  Three runs on the sample store: a file-backed job that succeeds, the same job when the
  embedding step fails and the policy is marked failed, and a job whose temporary file is
  already gone, so that the unlink itself fails.
\<close>

theorem processJob_unlinks_temp_file_witness:
  "files sample_world ''/tmp/upload-1.pdf'' = Some ''%PDF-1.7''
   \<and> fst (processJob (facts_env reply_with_facts) file_job sample_world) = Inr ()
   \<and> files (snd (processJob (facts_env reply_with_facts) file_job sample_world))
        ''/tmp/upload-1.pdf'' = None
   \<and> fst (processJob failing_env file_job sample_world) = Inr ()
   \<and> map_option p_status (policies (snd (processJob failing_env file_job sample_world)) ''p1'')
       = Some Failed
   \<and> files (snd (processJob failing_env file_job sample_world)) ''/tmp/upload-1.pdf'' = None
   \<and> files sample_world ''/tmp/already-removed.pdf'' = None
   \<and> fst (processJob (facts_env reply_with_facts) gone_file_job sample_world) = Inr ()"
proof -
  have j: "job_deleteFileAfter file_job = Some True"
    "job_filePath file_job = Some ''/tmp/upload-1.pdf''" "''/tmp/upload-1.pdf'' \<noteq> []"
    by (simp_all add: file_job_def)
  have g: "job_deleteFileAfter gone_file_job = Some True"
    "job_filePath gone_file_job = Some ''/tmp/already-removed.pdf''"
    "''/tmp/already-removed.pdf'' \<noteq> []"
    by (simp_all add: gone_file_job_def)
  have pid: "job_policyId file_job = ''p1''" "job_policyId gone_file_job = ''p1''"
    by (simp_all add: file_job_def gone_file_job_def)
  obtain w3 where ok: "tryCatch (jobTry (facts_env reply_with_facts) file_job) (jobCatch file_job)
                         sample_world = (Inr (), w3)"
    using sample_jobTry [OF pid(1) resolve_file_job] by (auto simp: tryCatch_def)
  obtain w4 where ok2: "tryCatch (jobTry (facts_env reply_with_facts) gone_file_job)
                          (jobCatch gone_file_job) sample_world = (Inr (), w4)"
    using sample_jobTry [OF pid(2) resolve_gone_file_job] by (auto simp: tryCatch_def)
  have f: "files sample_world ''/tmp/upload-1.pdf'' = Some ''%PDF-1.7''"
    "files sample_world ''/tmp/already-removed.pdf'' = None"
    by (simp_all add: sample_world_def)
  from processJob_unlinks_temp_file [OF j, of "facts_env reply_with_facts" sample_world]
    processJob_unlinks_temp_file [OF j, of failing_env sample_world]
    processJob_unlinks_temp_file [OF g, of "facts_env reply_with_facts" sample_world]
  show ?thesis
    by (simp add: ok ok2 failing_file_job f)
qed

text \<open>
  C1: a job whose policy id is absent from the store does stall the worker loop. The
  \<open>catch\<close> block's own \<open>update\<close> finds no row and throws, so \<open>processQueue\<close> ends with
  that error, the job queued behind it is never run and its policy stays pending,
  \<open>isProcessing\<close> stays set, and a later enqueue only grows the queue. The same job
  queued alone is processed to completion. (For jobs whose policies exist the loop does
  what the claim says: \<open>processQueue_all_present\<close>.)
\<close>

theorem missing_policy_stalls_queue:
  "policies sample_world ''ghost'' = None
   \<and> map_option p_status (policies sample_world ''p1'') = Some Pending
   \<and> fst (processQueue (facts_env reply_with_facts) poisoned_queue sample_world)
       = Inl RecordNotFound
   \<and> fst (snd (processQueue (facts_env reply_with_facts) poisoned_queue sample_world))
       = stalled_queue
   \<and> map_option p_status
        (policies (snd (snd (processQueue (facts_env reply_with_facts) poisoned_queue
           sample_world))) ''p1'') = Some Pending
   \<and> fst (queuePolicyProcessing (facts_env reply_with_facts) ''p1'' (Some ''%PDF-1.7'') None None
            stalled_queue
            (snd (snd (processQueue (facts_env reply_with_facts) poisoned_queue sample_world))))
       = \<lparr>jobQueue = [good_job, good_job], isProcessing = True\<rparr>
   \<and> snd (queuePolicyProcessing (facts_env reply_with_facts) ''p1'' (Some ''%PDF-1.7'') None None
            stalled_queue
            (snd (snd (processQueue (facts_env reply_with_facts) poisoned_queue sample_world))))
       = snd (snd (processQueue (facts_env reply_with_facts) poisoned_queue sample_world))
   \<and> fst (processQueue (facts_env reply_with_facts)
            \<lparr>jobQueue = [good_job], isProcessing = False\<rparr> sample_world) = Inr ()
   \<and> map_option p_status
        (policies (snd (snd (processQueue (facts_env reply_with_facts)
           \<lparr>jobQueue = [good_job], isProcessing = False\<rparr> sample_world))) ''p1'')
       = Some Completed"
proof -
  let ?env = "facts_env reply_with_facts"
  have g: "policies sample_world (job_policyId ghost_job) = None"
    by (simp add: ghost_job_def sample_world_def)
  have q: "\<not> isProcessing poisoned_queue" "jobQueue poisoned_queue = ghost_job # [good_job]"
    by (simp_all add: poisoned_queue_def)
  note stall = processQueue_missing_policy_first [OF q g, of ?env]
  have s: "isProcessing stalled_queue" by (simp add: stalled_queue_def)
  note later = queuePolicyProcessing_while_processing [OF s, of ?env "''p1''" "Some ''%PDF-1.7''"
      None None "snd (snd (processQueue ?env poisoned_queue sample_world))"]
  have pid: "job_policyId good_job = ''p1''" by (simp add: good_job_def)
  note good = sample_processJob [OF pid resolve_good_job]
  obtain w' where pj: "processJob ?env good_job sample_world = (Inr (), w')"
    and pw: "policies w' ''p1'' =
               Some (sample_policy\<lparr>p_status := Completed, p_processedAt := Some 1700\<rparr>)"
    using good by (cases "processJob ?env good_job sample_world") auto
  have alone: "processQueue ?env \<lparr>jobQueue = [good_job], isProcessing = False\<rparr> sample_world =
                 (Inr (), \<lparr>jobQueue = [], isProcessing = False\<rparr>, w')"
    by (simp add: processQueue_def pj)
  have c1: "policies sample_world ''ghost'' = None"
    by (simp add: sample_world_def)
  have c2: "map_option p_status (policies sample_world ''p1'') = Some Pending"
    by (simp add: sample_world_fields sample_policy_def)
  have c3: "fst (processQueue ?env poisoned_queue sample_world) = Inl RecordNotFound"
    using stall by simp
  have c4: "fst (snd (processQueue ?env poisoned_queue sample_world)) = stalled_queue"
    using stall by (simp add: stalled_queue_def)
  have c5: "map_option p_status
        (policies (snd (snd (processQueue ?env poisoned_queue sample_world))) ''p1'')
       = Some Pending"
    using stall c2 by simp
  have c6: "queuePolicyProcessing ?env ''p1'' (Some ''%PDF-1.7'') None None stalled_queue
              (snd (snd (processQueue ?env poisoned_queue sample_world))) =
            (\<lparr>jobQueue = [good_job, good_job], isProcessing = True\<rparr>,
             snd (snd (processQueue ?env poisoned_queue sample_world)))"
    unfolding later by (simp add: stalled_queue_def good_job_def)
  have c8: "fst (processQueue ?env \<lparr>jobQueue = [good_job], isProcessing = False\<rparr> sample_world)
              = Inr ()"
    by (simp add: alone)
  have c9: "map_option p_status
        (policies (snd (snd (processQueue ?env
           \<lparr>jobQueue = [good_job], isProcessing = False\<rparr> sample_world))) ''p1'')
       = Some Completed"
    by (simp add: alone pw)
  from c1 c2 c3 c4 c5 c6 c8 c9 show ?thesis
    by (simp only: fst_conv snd_conv)
qed

end
